theory Spec2Isabelle
  imports Complex_Main "HOL-Library.Sublist" "HOL-Library.AList"
begin

section \<open>JavaScript numbers\<close>

text \<open>
  The analytics code computes with JavaScript numbers, that is IEEE-754 binary64 values.
  A number is modelled as a finite value (a rational, always one that binary64 can hold
  when it was produced by an operation below), one of the two infinities, or NaN.
  Every arithmetic operation computes the exact rational result and rounds it to the
  nearest binary64 value, ties to even, with gradual underflow and overflow to infinity:
  this is \<open>fl\<close>. The two zeros of binary64 are identified and a zero divisor counts as
  the positive zero: the inputs are taken to hold no negative zero, and a difference of
  two numbers, a length, a sum of squares and a product of square roots are never the
  negative zero. The one divisor of the modelled code that can be a computed negative
  zero is in the reverse path of \<open>convertUnit\<close>, where it is treated on its own.
\<close>

datatype jsnum = Fin rat | PInf | NInf | NaN

definition pow2 :: "int \<Rightarrow> rat" where
  "pow2 e = (if 0 \<le> e then 2 ^ nat e else 1 / 2 ^ nat (- e))"

text \<open>Number of binary digits of a positive integer.\<close>

function bitlen :: "int \<Rightarrow> int" where
  "bitlen n = (if n \<le> 0 then 0 else 1 + bitlen (n div 2))"
  by pat_completeness auto
termination
  by (relation "measure nat") auto

declare bitlen.simps [simp del]

text \<open>
  The binary exponent of a positive rational \<open>x\<close>: the \<open>e\<close> with \<open>2^e \<le> x < 2^(e+1)\<close>.
  With \<open>x = p / q\<close> it is the difference of the bit lengths of \<open>p\<close> and \<open>q\<close>, or one less.
\<close>

definition binade :: "rat \<Rightarrow> int" where
  "binade x = (case quotient_of x of (p, q) \<Rightarrow>
     let d = bitlen p - bitlen q
     in if pow2 d \<le> x then d else d - 1)"

definition round_even :: "rat \<Rightarrow> int" where
  "round_even x = (let f = \<lfloor>x\<rfloor>; d = x - of_int f
     in if d < 1 / 2 then f else if 1 / 2 < d then f + 1 else if even f then f else f + 1)"

definition overflow :: "rat \<Rightarrow> jsnum" where
  "overflow x = (if 0 < x then PInf else NInf)"

text \<open>
  Rounding to binary64: 53 significant bits, least exponent \<open>-1022\<close> (below it the
  spacing stays \<open>2^-1074\<close>), overflow when the rounded magnitude reaches \<open>2^1024\<close>.
\<close>

definition fl :: "rat \<Rightarrow> jsnum" where
  "fl x = (if x = 0 then Fin 0 else
     let e = max (binade \<bar>x\<bar>) (- 1022)
     in if 1023 < e then overflow x
        else let u = pow2 (e - 52); n = round_even (x / u)
             in if e = 1023 \<and> 2 ^ 53 \<le> \<bar>n\<bar> then overflow x else Fin (of_int n * u))"

text \<open>A decimal literal of the source denotes the binary64 value nearest to it.\<close>

definition js_lit :: "rat \<Rightarrow> jsnum" where
  "js_lit q = fl q"

fun js_neg :: "jsnum \<Rightarrow> jsnum" where
  "js_neg (Fin a) = Fin (- a)"
| "js_neg PInf = NInf"
| "js_neg NInf = PInf"
| "js_neg NaN = NaN"

fun js_add :: "jsnum \<Rightarrow> jsnum \<Rightarrow> jsnum" where
  "js_add NaN _ = NaN"
| "js_add _ NaN = NaN"
| "js_add (Fin a) (Fin b) = fl (a + b)"
| "js_add PInf NInf = NaN"
| "js_add NInf PInf = NaN"
| "js_add PInf _ = PInf"
| "js_add NInf _ = NInf"
| "js_add (Fin a) b = b"

definition js_sub :: "jsnum \<Rightarrow> jsnum \<Rightarrow> jsnum" where
  "js_sub a b = js_add a (js_neg b)"

fun js_mul :: "jsnum \<Rightarrow> jsnum \<Rightarrow> jsnum" where
  "js_mul NaN _ = NaN"
| "js_mul _ NaN = NaN"
| "js_mul (Fin a) (Fin b) = fl (a * b)"
| "js_mul (Fin a) b = (if a = 0 then NaN else if 0 < a then b else js_neg b)"
| "js_mul a (Fin b) = (if b = 0 then NaN else if 0 < b then a else js_neg a)"
| "js_mul a b = (if a = b then PInf else NInf)"

fun js_div :: "jsnum \<Rightarrow> jsnum \<Rightarrow> jsnum" where
  "js_div NaN _ = NaN"
| "js_div _ NaN = NaN"
| "js_div (Fin a) (Fin b) =
     (if b = 0 then (if a = 0 then NaN else overflow a) else fl (a / b))"
| "js_div (Fin a) b = Fin 0"
| "js_div a (Fin b) = (if 0 \<le> b then a else js_neg a)"
| "js_div a b = NaN"

text \<open>The relational operators; every comparison with NaN is false.\<close>

fun js_lt :: "jsnum \<Rightarrow> jsnum \<Rightarrow> bool" where
  "js_lt NaN _ = False"
| "js_lt _ NaN = False"
| "js_lt (Fin a) (Fin b) = (a < b)"
| "js_lt PInf _ = False"
| "js_lt _ NInf = False"
| "js_lt _ _ = True"

definition js_gt :: "jsnum \<Rightarrow> jsnum \<Rightarrow> bool" where
  "js_gt a b = js_lt b a"

fun js_eq :: "jsnum \<Rightarrow> jsnum \<Rightarrow> bool" where
  "js_eq NaN _ = False"
| "js_eq _ NaN = False"
| "js_eq a b = (a = b)"

definition js_ge :: "jsnum \<Rightarrow> jsnum \<Rightarrow> bool" where
  "js_ge a b = (js_lt b a \<or> js_eq a b)"

fun js_abs :: "jsnum \<Rightarrow> jsnum" where
  "js_abs (Fin a) = Fin \<bar>a\<bar>"
| "js_abs NInf = PInf"
| "js_abs a = a"

text \<open>\<open>Math.round\<close>: the nearest integer, a tie going towards plus infinity.\<close>

fun js_round :: "jsnum \<Rightarrow> jsnum" where
  "js_round (Fin a) = Fin (of_int \<lfloor>a + 1 / 2\<rfloor>)"
| "js_round a = a"

text \<open>\<open>Math.min\<close> of two numbers (the spread call folds it over the array from +Infinity).\<close>

fun js_min :: "jsnum \<Rightarrow> jsnum \<Rightarrow> jsnum" where
  "js_min NaN _ = NaN"
| "js_min _ NaN = NaN"
| "js_min a b = (if js_lt b a then b else a)"

text \<open>Integer square root, for the correctly rounded \<open>Math.sqrt\<close>.\<close>

function isqrt :: "int \<Rightarrow> int" where
  "isqrt n = (if n < 2 then max n 0
     else let r = 2 * isqrt (n div 4) in if (r + 1) * (r + 1) \<le> n then r + 1 else r)"
  by pat_completeness auto
termination
  by (relation "measure nat") auto

declare isqrt.simps [simp del]

fun js_sqrt :: "jsnum \<Rightarrow> jsnum" where
  "js_sqrt (Fin q) =
     (if q < 0 then NaN else if q = 0 then Fin 0
      else let u = pow2 (binade q div 2 - 52);
               t = q / (u * u);
               m = isqrt \<lfloor>t\<rfloor>;
               h = (of_int m + 1 / 2) * (of_int m + 1 / 2)
           in Fin (of_int (if t < h then m else if h < t then m + 1
                           else if even m then m else m + 1) * u))"
| "js_sqrt PInf = PInf"
| "js_sqrt NInf = NaN"
| "js_sqrt NaN = NaN"

text \<open>
  \<open>parseFloat(x.toFixed(2))\<close>: \<open>toFixed\<close> prints the integer \<open>n\<close> for which \<open>n / 100\<close> is
  nearest to the magnitude of \<open>x\<close> (the larger one at a tie) and \<open>parseFloat\<close> reads the
  decimal back; from \<open>10^21\<close> on, and for NaN and the infinities, the number is printed
  and read back unchanged.
\<close>

fun toFixed2 :: "jsnum \<Rightarrow> jsnum" where
  "toFixed2 (Fin q) =
     (if 10 ^ 21 \<le> \<bar>q\<bar> then Fin q
      else let n = \<lfloor>\<bar>q\<bar> * 100 + 1 / 2\<rfloor>
           in fl ((if q < 0 then - 1 else 1) * of_int n / 100))"
| "toFixed2 a = a"

text \<open>A number that is neither negative nor NaN.\<close>

definition nonneg :: "jsnum \<Rightarrow> bool" where
  "nonneg a = (a = PInf \<or> (\<exists>r. 0 \<le> r \<and> a = Fin r))"

definition nan_or_nonneg :: "jsnum \<Rightarrow> bool" where
  "nan_or_nonneg a = (a = NaN \<or> nonneg a)"

text \<open>
  A property that may be absent or null: \<open>undefined\<close>, \<open>null\<close> or a number, with the
  conversions the operators apply to it.
\<close>

datatype jsval = Undefined | Null | Num jsnum

fun to_number :: "jsval \<Rightarrow> jsnum" where
  "to_number Undefined = NaN"
| "to_number Null = Fin 0"
| "to_number (Num n) = n"

fun truthy :: "jsval \<Rightarrow> bool" where
  "truthy Undefined = False"
| "truthy Null = False"
| "truthy (Num (Fin q)) = (q \<noteq> 0)"
| "truthy (Num NaN) = False"
| "truthy (Num _) = True"

section \<open>Strings\<close>

text \<open>
  A string is a list of code units below 256 (Latin-1), which covers every string literal
  of the source; \<open>toLowerCase\<close> and \<open>trim\<close> are those of JavaScript on that range.
\<close>

definition lower_char :: "char \<Rightarrow> char" where
  "lower_char c = (let n = (of_char c :: nat)
     in if (65 \<le> n \<and> n \<le> 90) \<or> (192 \<le> n \<and> n \<le> 222 \<and> n \<noteq> 215)
        then char_of (n + 32) else c)"

definition toLowerCase :: "string \<Rightarrow> string" where
  "toLowerCase s = map lower_char s"

definition is_space :: "char \<Rightarrow> bool" where
  "is_space c = (let n = (of_char c :: nat) in (9 \<le> n \<and> n \<le> 13) \<or> n = 32 \<or> n = 160)"

definition trim :: "string \<Rightarrow> string" where
  "trim s = rev (dropWhile is_space (rev (dropWhile is_space s)))"

text \<open>\<open>s.includes(key)\<close>: \<open>key\<close> occurs in \<open>s\<close> as a contiguous substring.\<close>

fun js_includes :: "string \<Rightarrow> string \<Rightarrow> bool" where
  "js_includes [] key = (key = [])"
| "js_includes (c # s) key = (prefix key (c # s) \<or> js_includes s key)"

fun join :: "string \<Rightarrow> string list \<Rightarrow> string" where
  "join sep [] = []"
| "join sep [x] = x"
| "join sep (x # y # ys) = x @ sep @ join sep (y # ys)"

text \<open>The decimal text a template literal prints for a count.\<close>

definition digit :: "nat \<Rightarrow> char" where
  "digit d = ''0123456789'' ! d"

fun decimal :: "nat \<Rightarrow> string" where
  "decimal n = (if n < 10 then [digit n] else decimal (n div 10) @ [digit (n mod 10)])"

declare decimal.simps [simp del]

section \<open>The normalizer (utils/normalizer.js)\<close>

text \<open>
  The standardization table, in the order of the object literal (the order in which
  \<open>Object.entries\<close> lists it): key, LOINC code, standard unit, category.
\<close>

definition micro :: string where
  "micro = [CHR 0xB5]"

definition biomarkerStandardization :: "(string \<times> string \<times> string \<times> string) list" where
  "biomarkerStandardization =
   [(''hemoglobin'', ''718-7'', ''g/dL'', ''CBC''),
    (''hgb'', ''718-7'', ''g/dL'', ''CBC''),
    (''hb'', ''718-7'', ''g/dL'', ''CBC''),
    (''wbc'', ''6690-2'', ''10^3/'' @ micro @ ''L'', ''CBC''),
    (''white blood cell count'', ''6690-2'', ''10^3/'' @ micro @ ''L'', ''CBC''),
    (''rbc'', ''789-8'', ''10^6/'' @ micro @ ''L'', ''CBC''),
    (''red blood cell count'', ''789-8'', ''10^6/'' @ micro @ ''L'', ''CBC''),
    (''platelets'', ''777-3'', ''10^3/'' @ micro @ ''L'', ''CBC''),
    (''plt'', ''777-3'', ''10^3/'' @ micro @ ''L'', ''CBC''),
    (''hematocrit'', ''4544-3'', ''%'', ''CBC''),
    (''hct'', ''4544-3'', ''%'', ''CBC''),
    (''mcv'', ''787-2'', ''fL'', ''CBC''),
    (''mch'', ''785-6'', ''pg'', ''CBC''),
    (''mchc'', ''786-4'', ''g/dL'', ''CBC''),
    (''rdw'', ''788-0'', ''%'', ''CBC''),
    (''neutrophils'', ''751-8'', ''%'', ''CBC''),
    (''lymphocytes'', ''731-0'', ''%'', ''CBC''),
    (''monocytes'', ''742-7'', ''%'', ''CBC''),
    (''eosinophils'', ''711-2'', ''%'', ''CBC''),
    (''basophils'', ''704-7'', ''%'', ''CBC''),
    (''glucose'', ''2345-7'', ''mg/dL'', ''CMP''),
    (''bun'', ''3094-0'', ''mg/dL'', ''CMP''),
    (''blood urea nitrogen'', ''3094-0'', ''mg/dL'', ''CMP''),
    (''creatinine'', ''2160-0'', ''mg/dL'', ''CMP''),
    (''egfr'', ''33914-3'', ''mL/min/1.73m'' @ [CHR 0xB2], ''CMP''),
    (''sodium'', ''2951-2'', ''mmol/L'', ''CMP''),
    (''na'', ''2951-2'', ''mmol/L'', ''CMP''),
    (''potassium'', ''2823-3'', ''mmol/L'', ''CMP''),
    (''k'', ''2823-3'', ''mmol/L'', ''CMP''),
    (''chloride'', ''2075-0'', ''mmol/L'', ''CMP''),
    (''cl'', ''2075-0'', ''mmol/L'', ''CMP''),
    (''co2'', ''2028-9'', ''mmol/L'', ''CMP''),
    (''calcium'', ''17861-6'', ''mg/dL'', ''CMP''),
    (''ca'', ''17861-6'', ''mg/dL'', ''CMP''),
    (''protein'', ''2885-2'', ''g/dL'', ''CMP''),
    (''albumin'', ''1751-7'', ''g/dL'', ''CMP''),
    (''globulin'', ''2336-6'', ''g/dL'', ''CMP''),
    (''a/g ratio'', ''1759-0'', [], ''CMP''),
    (''bilirubin'', ''1975-2'', ''mg/dL'', ''CMP''),
    (''alt'', ''1742-6'', ''U/L'', ''CMP''),
    (''ast'', ''1920-8'', ''U/L'', ''CMP''),
    (''alp'', ''6768-6'', ''U/L'', ''CMP''),
    (''cholesterol'', ''2093-3'', ''mg/dL'', ''Lipid''),
    (''triglycerides'', ''2571-8'', ''mg/dL'', ''Lipid''),
    (''hdl'', ''2085-9'', ''mg/dL'', ''Lipid''),
    (''ldl'', ''13457-7'', ''mg/dL'', ''Lipid''),
    (''vldl'', ''2091-7'', ''mg/dL'', ''Lipid''),
    (''tsh'', ''3016-3'', ''mIU/L'', ''Thyroid''),
    (''t3'', ''3053-6'', ''ng/dL'', ''Thyroid''),
    (''t4'', ''3026-2'', micro @ ''g/dL'', ''Thyroid''),
    (''free t3'', ''30123-3'', ''pg/mL'', ''Thyroid''),
    (''free t4'', ''3024-7'', ''ng/dL'', ''Thyroid''),
    (''urine glucose'', ''5792-7'', ''mg/dL'', ''Urinalysis''),
    (''urine protein'', ''5804-0'', ''mg/dL'', ''Urinalysis''),
    (''urine ph'', ''5803-2'', [], ''Urinalysis''),
    (''urine specific gravity'', ''5811-5'', [], ''Urinalysis''),
    (''urine ketones'', ''5797-6'', ''mg/dL'', ''Urinalysis''),
    (''ngal'', ''62238-1'', ''ng/mL'', ''Novel Kidney''),
    (''kim-1'', ''82642-1'', ''ng/mL'', ''Novel Kidney''),
    (''timp-2'', ''89579-9'', ''ng/mL'', ''Novel Kidney''),
    (''igfbp7'', ''89580-7'', ''ng/mL'', ''Novel Kidney'')]"

text \<open>
  The conversion functions, keyed as in the source. A lookup \<open>unitConversions[key]\<close> with a
  key built from the template \<open>from_to_to\<close> finds own properties only, since no inherited
  property name contains \<open>_to_\<close>.
\<close>

definition unitConversions :: "(string \<times> (jsnum \<Rightarrow> jsnum)) list" where
  "unitConversions =
   [(''g/dL_to_g/L'', \<lambda>v. js_mul v (Fin 10)),
    (''g/L_to_g/dL'', \<lambda>v. js_div v (Fin 10)),
    (''mmol/L_to_g/dL'', \<lambda>v. js_mul v (js_lit (1611 / 1000))),
    (''g/dL_to_mmol/L'', \<lambda>v. js_div v (js_lit (1611 / 1000))),
    (''mg/dL_to_mmol/L'', \<lambda>v. js_mul v (js_lit (555 / 10000))),
    (''mmol/L_to_mg/dL'', \<lambda>v. js_mul v (js_lit (180182 / 10000))),
    (''mg/dL_to_'' @ micro @ ''mol/L'', \<lambda>v. js_mul v (js_lit (884 / 10))),
    (micro @ ''mol/L_to_mg/dL'', \<lambda>v. js_div v (js_lit (884 / 10))),
    (''mg/dL_to_mmol/L_chol'', \<lambda>v. js_mul v (js_lit (259 / 10000))),
    (''mmol/L_to_mg/dL_chol'', \<lambda>v. js_mul v (js_lit (3867 / 100))),
    (''mg/dL_to_mmol/L_trig'', \<lambda>v. js_mul v (js_lit (113 / 10000))),
    (''mmol/L_to_mg/dL_trig'', \<lambda>v. js_mul v (js_lit (885 / 10))),
    (''F_to_C'', \<lambda>v. js_div (js_mul (js_sub v (Fin 32)) (Fin 5)) (Fin 9)),
    (''C_to_F'', \<lambda>v. js_add (js_div (js_mul v (Fin 9)) (Fin 5)) (Fin 32))]"

record standard_biomarker =
  standardName :: string
  code :: "string option"
  standardUnit :: "string option"
  category :: "string option"

text \<open>
  The direct match \<open>biomarkerStandardization[normalizedName]\<close> is a property read, so it
  also finds what the object inherits. After \<open>toLowerCase\<close> two names reach an inherited
  property, \<open>constructor\<close> and \<open>__proto__\<close>; both values are truthy and have no own
  enumerable property, so the spread leaves \<open>code\<close>, \<open>standardUnit\<close> and \<open>category\<close>
  undefined (\<open>None\<close>).
\<close>

definition inherited_property :: "string \<Rightarrow> bool" where
  "inherited_property key = (key = ''constructor'' \<or> key = ''__proto__'')"

definition standardizeBiomarker :: "string \<Rightarrow> standard_biomarker option" where
  "standardizeBiomarker name =
    (if name = [] then None
     else let normalizedName = trim (toLowerCase name)
          in case map_of biomarkerStandardization normalizedName of
               Some (c, u, k) \<Rightarrow>
                 Some \<lparr>standardName = normalizedName, code = Some c,
                       standardUnit = Some u, category = Some k\<rparr>
             | None \<Rightarrow>
                 if inherited_property normalizedName
                 then Some \<lparr>standardName = normalizedName, code = None,
                            standardUnit = None, category = None\<rparr>
                 else (case find (\<lambda>(key, v). js_includes normalizedName key)
                              biomarkerStandardization of
                         Some (key, c, u, k) \<Rightarrow>
                           Some \<lparr>standardName = key, code = Some c,
                                 standardUnit = Some u, category = Some k\<rparr>
                       | None \<Rightarrow> None))"

text \<open>
  \<open>convertUnit\<close>; the target unit is the standard unit of the entry, which is undefined
  for an inherited entry and then prints as \<open>undefined\<close> in the key template. The line
  written to the console when no conversion exists is not part of the model.

  The reverse path computes \<open>1 / f(1 / value)\<close>. At the value minus infinity the inner
  quotient is the negative zero; a conversion that multiplies or divides by its factor
  (one that takes zero to zero) keeps it, and its reciprocal is minus infinity. The
  two temperature conversions take zero to a number other than zero.
\<close>

definition unit_text :: "string option \<Rightarrow> string" where
  "unit_text u = (case u of None \<Rightarrow> ''undefined'' | Some s \<Rightarrow> s)"

definition reverse_conversion :: "(jsnum \<Rightarrow> jsnum) \<Rightarrow> jsnum \<Rightarrow> jsnum" where
  "reverse_conversion g v =
    (if v = NInf \<and> g (Fin 0) = Fin 0 then NInf
     else js_div (Fin 1) (g (js_div (Fin 1) v)))"

definition convertUnit :: "jsnum \<Rightarrow> string \<Rightarrow> string option \<Rightarrow> jsnum" where
  "convertUnit v fromUnit toUnit =
    (if Some fromUnit = toUnit then v
     else let conversionKey = fromUnit @ ''_to_'' @ unit_text toUnit;
              reverseConversionKey = unit_text toUnit @ ''_to_'' @ fromUnit
          in case map_of unitConversions conversionKey of
               Some f \<Rightarrow> f v
             | None \<Rightarrow>
                 (case map_of unitConversions reverseConversionKey of
                    Some g \<Rightarrow> reverse_conversion g v
                  | None \<Rightarrow> v))"

record abnormal_status =
  status :: string
  severity :: string
  percentFromRange :: jsnum

record demographics =
  age :: jsval
  sex :: "string option"

text \<open>
  \<open>determineAbnormalStatus(value, minRange, maxRange, demographics)\<close>. The bounds arrive as
  they are stored in the range object, so they may be null or undefined; the operators
  convert them with \<open>to_number\<close>.
\<close>

definition determineAbnormalStatus ::
  "jsnum \<Rightarrow> jsval \<Rightarrow> jsval \<Rightarrow> demographics \<Rightarrow> abnormal_status" where
  "determineAbnormalStatus v minRange maxRange demo =
    (let lo = to_number minRange; hi = to_number maxRange
     in if js_lt v lo then
          \<lparr>status = ''below_range'',
           severity = (if js_gt (js_div (js_sub lo v) lo) (Fin (1 / 2)) then ''high'' else ''low''),
           percentFromRange =
             js_neg (js_round (js_mul (js_sub (Fin 1) (js_div v lo)) (Fin 100)))\<rparr>
        else if js_gt v hi then
          \<lparr>status = ''above_range'',
           severity = (if js_gt (js_div (js_sub v hi) hi) (Fin (1 / 2)) then ''high'' else ''low''),
           percentFromRange =
             js_round (js_mul (js_sub (js_div v hi) (Fin 1)) (Fin 100))\<rparr>
        else
          let rangeWidth = js_sub hi lo;
              position = js_div (js_sub v lo) rangeWidth
          in if js_lt position (js_lit (1 / 10)) then
               \<lparr>status = ''borderline_low'', severity = ''minimal'', percentFromRange = Fin 0\<rparr>
             else if js_gt position (js_lit (9 / 10)) then
               \<lparr>status = ''borderline_high'', severity = ''minimal'', percentFromRange = Fin 0\<rparr>
             else
               \<lparr>status = ''normal'', severity = ''none'', percentFromRange = Fin 0\<rparr>)"

record range =
  range_min :: jsval
  range_max :: jsval

definition adjustReferenceRange :: "string option \<Rightarrow> range \<Rightarrow> demographics \<Rightarrow> range" where
  "adjustReferenceRange biomarkerCode defaultRange demo =
    (if biomarkerCode = Some ''718-7'' then
       (if sex demo = Some ''female''
        then \<lparr>range_min = Num (Fin 12), range_max = Num (js_lit (155 / 10))\<rparr>
        else if sex demo = Some ''male''
        then \<lparr>range_min = Num (js_lit (135 / 10)), range_max = Num (js_lit (175 / 10))\<rparr>
        else defaultRange)
     else if biomarkerCode = Some ''2160-0'' then
       (if sex demo = Some ''female''
        then \<lparr>range_min = Num (js_lit (5 / 10)), range_max = Num (js_lit (11 / 10))\<rparr>
        else if sex demo = Some ''male''
        then \<lparr>range_min = Num (js_lit (7 / 10)), range_max = Num (js_lit (13 / 10))\<rparr>
        else defaultRange)
     else defaultRange)"

definition defaultRanges :: "(string \<times> jsnum \<times> jsnum) list" where
  "defaultRanges =
   [(''718-7'', Fin 12, Fin 16),
    (''6690-2'', js_lit (45 / 10), Fin 11),
    (''789-8'', js_lit (42 / 10), js_lit (58 / 10)),
    (''777-3'', Fin 150, Fin 450),
    (''4544-3'', Fin 36, Fin 48),
    (''2345-7'', Fin 70, Fin 99),
    (''3094-0'', Fin 7, Fin 20),
    (''2160-0'', js_lit (6 / 10), js_lit (12 / 10)),
    (''2951-2'', Fin 135, Fin 145),
    (''2823-3'', js_lit (35 / 10), Fin 5),
    (''2093-3'', Fin 0, Fin 200),
    (''2571-8'', Fin 0, Fin 150),
    (''2085-9'', Fin 40, Fin 60),
    (''13457-7'', Fin 0, Fin 100),
    (''3016-3'', js_lit (4 / 10), Fin 4),
    (''3053-6'', Fin 80, Fin 200),
    (''3026-2'', Fin 5, Fin 12),
    (''30123-3'', js_lit (23 / 10), js_lit (42 / 10)),
    (''3024-7'', js_lit (8 / 10), js_lit (18 / 10))]"

text \<open>
  \<open>defaultRanges[biomarkerCode] || { min: null, max: null }\<close> is a property read too: for
  the name of a property that every object inherits it yields that inherited value, which
  is truthy and has neither \<open>min\<close> nor \<open>max\<close>.
\<close>

definition object_prototype_properties :: "string list" where
  "object_prototype_properties =
    [''constructor'', ''__defineGetter__'', ''__defineSetter__'', ''hasOwnProperty'',
     ''__lookupGetter__'', ''__lookupSetter__'', ''isPrototypeOf'', ''propertyIsEnumerable'',
     ''toString'', ''valueOf'', ''__proto__'', ''toLocaleString'']"

definition getDefaultReferenceRange :: "string option \<Rightarrow> range" where
  "getDefaultReferenceRange biomarkerCode =
    (case map_of defaultRanges (unit_text biomarkerCode) of
       Some (lo, hi) \<Rightarrow> \<lparr>range_min = Num lo, range_max = Num hi\<rparr>
     | None \<Rightarrow>
         if unit_text biomarkerCode \<in> set object_prototype_properties
         then \<lparr>range_min = Undefined, range_max = Undefined\<rparr>
         else \<lparr>range_min = Null, range_max = Null\<rparr>)"

text \<open>The raw measurement handed over by the parsers.\<close>

record biomarkerData =
  m_name :: string
  m_value :: jsnum
  m_unit :: string
  m_referenceMin :: jsval
  m_referenceMax :: jsval

record normalized =
  n_code :: "string option"
  n_name :: string
  n_originalName :: string
  n_value :: jsnum
  n_originalValue :: jsnum
  n_unit :: "string option"
  n_originalUnit :: string
  n_category :: "string option"
  n_referenceMin :: jsval
  n_referenceMax :: jsval
  n_status :: string
  n_severity :: string
  n_percentFromRange :: jsnum

text \<open>
  The two shapes \<open>normalizeBiomarker\<close> returns: the input record spread with
  \<open>standardized: false\<close> and a message, or the normalized record with
  \<open>standardized: true\<close>.
\<close>

datatype normalize_result =
    Unstandardized biomarkerData string
  | Standardized normalized

definition normalizeBiomarker :: "biomarkerData \<Rightarrow> demographics \<Rightarrow> normalize_result" where
  "normalizeBiomarker d demo =
    (case standardizeBiomarker (m_name d) of
       None \<Rightarrow> Unstandardized d ''Unknown biomarker''
     | Some standardBiomarker \<Rightarrow>
         let standardValue =
               (if Some (m_unit d) \<noteq> standardUnit standardBiomarker
                then convertUnit (m_value d) (m_unit d) (standardUnit standardBiomarker)
                else m_value d);
             refRange =
               (if \<not> truthy (m_referenceMin d) \<or> \<not> truthy (m_referenceMax d)
                then adjustReferenceRange (code standardBiomarker)
                       (getDefaultReferenceRange (code standardBiomarker)) demo
                else \<lparr>range_min = m_referenceMin d, range_max = m_referenceMax d\<rparr>);
             abnormalStatus =
               determineAbnormalStatus standardValue (range_min refRange) (range_max refRange) demo
         in Standardized
              \<lparr>n_code = code standardBiomarker,
               n_name = standardName standardBiomarker,
               n_originalName = m_name d,
               n_value = standardValue,
               n_originalValue = m_value d,
               n_unit = standardUnit standardBiomarker,
               n_originalUnit = m_unit d,
               n_category = category standardBiomarker,
               n_referenceMin = range_min refRange,
               n_referenceMax = range_max refRange,
               n_status = status abnormalStatus,
               n_severity = severity abnormalStatus,
               n_percentFromRange = percentFromRange abnormalStatus\<rparr>)"

text \<open>What a caller reads from the result: a property the object lacks is undefined.\<close>

definition result_status :: "normalize_result \<Rightarrow> string option" where
  "result_status r = (case r of Unstandardized d m \<Rightarrow> None | Standardized n \<Rightarrow> Some (n_status n))"

definition result_severity :: "normalize_result \<Rightarrow> string option" where
  "result_severity r = (case r of Unstandardized d m \<Rightarrow> None | Standardized n \<Rightarrow> Some (n_severity n))"

definition result_percentFromRange :: "normalize_result \<Rightarrow> jsnum option" where
  "result_percentFromRange r =
    (case r of Unstandardized d m \<Rightarrow> None | Standardized n \<Rightarrow> Some (n_percentFromRange n))"

definition standardized :: "normalize_result \<Rightarrow> bool" where
  "standardized r = (case r of Unstandardized d m \<Rightarrow> False | Standardized n \<Rightarrow> True)"

subsection \<open>The reference-range checks of the request middleware\<close>

datatype response = Next | Status400 string

text \<open>
  \<open>validateReferenceRanges\<close> (middleware/validation.js) on the two body fields. \<open>parseFloat\<close> of a number is that
  number, and of null it is NaN.
\<close>

definition parseFloat :: "jsval \<Rightarrow> jsnum" where
  "parseFloat v = (case v of Num n \<Rightarrow> n | _ \<Rightarrow> NaN)"

definition validateReferenceRanges :: "jsval \<Rightarrow> jsval \<Rightarrow> response" where
  "validateReferenceRanges referenceMin referenceMax =
    (if referenceMin \<noteq> Undefined \<and> referenceMax \<noteq> Undefined then
       let lo = parseFloat referenceMin; hi = parseFloat referenceMax
       in if lo = NaN \<or> hi = NaN then Status400 ''Reference ranges must be numbers''
          else if js_gt lo hi
          then Status400 ''Reference minimum cannot be greater than reference maximum''
          else Next
     else Next)"

text \<open>
  The consistency check of \<open>validateDataIntegrity\<close> (middleware/dataProtection.js), as it
  runs for a POST or PUT on a biomarker-values path, on the three body fields it reads;
  each field is a number, null or absent.
\<close>

definition validateDataIntegrity :: "jsval \<Rightarrow> jsval \<Rightarrow> jsval \<Rightarrow> response" where
  "validateDataIntegrity v referenceMin referenceMax =
    (if truthy v \<and> (to_number v = NaN \<or> js_lt (to_number v) (Fin 0))
     then Status400 ''Biomarker value must be a positive number''
     else if truthy referenceMin \<and> truthy referenceMax
             \<and> js_gt (parseFloat referenceMin) (parseFloat referenceMax)
     then Status400 ''Reference minimum cannot be greater than reference maximum''
     else Next)"

section \<open>Pattern detection (services/biomarkerInterpretation.js)\<close>

text \<open>
  \<open>identifyBiomarkerPatterns\<close> reads two properties of each interpreted biomarker, its
  name and its status, both strings.
\<close>

record biomarker =
  b_name :: string
  b_status :: string

record pattern =
  p_name :: string
  description :: string
  confidence :: string
  biomarkers :: "string list"
  recommendation :: string

text \<open>
  The lookup object filled by the \<open>forEach\<close>: a later biomarker of the same lower-cased
  name replaces an earlier one.
\<close>

definition biomarkerMap :: "biomarker list \<Rightarrow> (string \<rightharpoonup> biomarker)" where
  "biomarkerMap bs = foldl (\<lambda>m b. m(toLowerCase (b_name b) \<mapsto> b)) Map.empty bs"

definition includes_below :: "biomarker \<Rightarrow> bool" where
  "includes_below b = js_includes (b_status b) ''below''"

definition includes_above :: "biomarker \<Rightarrow> bool" where
  "includes_above b = js_includes (b_status b) ''above''"

text \<open>\<open>biomarkerMap[k] && check(biomarkerMap[k])\<close>.\<close>

definition present_and :: "(string \<rightharpoonup> biomarker) \<Rightarrow> string \<Rightarrow> (biomarker \<Rightarrow> bool) \<Rightarrow> bool" where
  "present_and m k check = (case m k of None \<Rightarrow> False | Some b \<Rightarrow> check b)"

definition anemia_patterns :: "(string \<rightharpoonup> biomarker) \<Rightarrow> pattern list" where
  "anemia_patterns m =
    (if present_and m ''hemoglobin'' includes_below then
       let p0 = \<lparr>p_name = ''Potential Anemia Pattern'',
                 description = ''Your results show low hemoglobin, which may indicate anemia.'',
                 confidence = ''medium'',
                 biomarkers = [''hemoglobin''],
                 recommendation = ''Consider discussing these results with your healthcare provider.''\<rparr>;
           p1 = (if present_and m ''hematocrit'' includes_below
                 then p0\<lparr>biomarkers := biomarkers p0 @ [''hematocrit''],
                         confidence := ''high'',
                         description := ''Your results show low hemoglobin and hematocrit, which may indicate anemia.''\<rparr>
                 else p0);
           p2 = (if present_and m ''mcv'' includes_below
                 then p1\<lparr>biomarkers := biomarkers p1 @ [''mcv''],
                         description := description p1 @
                           '' The low MCV suggests this may be microcytic anemia, often associated with iron deficiency.''\<rparr>
                 else if present_and m ''mcv'' includes_above
                 then p1\<lparr>biomarkers := biomarkers p1 @ [''mcv''],
                         description := description p1 @
                           '' The high MCV suggests this may be macrocytic anemia, which can be associated with vitamin B12 or folate deficiency.''\<rparr>
                 else p1)
       in [p2]
     else [])"

definition metabolicRiskFactors :: "(string \<times> (biomarker \<Rightarrow> bool)) list" where
  "metabolicRiskFactors =
    [(''glucose'', includes_above), (''triglycerides'', includes_above), (''hdl'', includes_below), (''ldl'', includes_above)]"

definition presentMetabolicFactors :: "(string \<rightharpoonup> biomarker) \<Rightarrow> string list" where
  "presentMetabolicFactors m =
    map fst (filter (\<lambda>(name, checkFn). present_and m name checkFn) metabolicRiskFactors)"

definition metabolic_patterns :: "(string \<rightharpoonup> biomarker) \<Rightarrow> pattern list" where
  "metabolic_patterns m =
    (let present = presentMetabolicFactors m;
         metabolicRiskCount = length present
     in if 2 \<le> metabolicRiskCount then
          [\<lparr>p_name = ''Potential Metabolic Risk Pattern'',
            description = ''Your results show '' @ decimal metabolicRiskCount @
              '' factors that may be associated with metabolic risk: '' @
              join '', '' present @ ''.'',
            confidence = (if 3 \<le> metabolicRiskCount then ''high'' else ''medium''),
            biomarkers = present,
            recommendation = ''Consider discussing lifestyle factors such as diet and exercise with your healthcare provider.''\<rparr>]
        else [])"

definition thyroid_patterns :: "(string \<rightharpoonup> biomarker) \<Rightarrow> pattern list" where
  "thyroid_patterns m =
    (if present_and m ''tsh'' includes_above then
       let p0 = \<lparr>p_name = ''Elevated TSH Pattern'',
                 description = ''Your results show elevated TSH, which may indicate the thyroid is being stimulated to produce more hormone.'',
                 confidence = ''medium'',
                 biomarkers = [''tsh''],
                 recommendation = ''Consider discussing these results with your healthcare provider.''\<rparr>
       in [if present_and m ''free t4'' includes_below
           then p0\<lparr>biomarkers := biomarkers p0 @ [''free t4''],
                   confidence := ''high'',
                   description := ''Your results show elevated TSH with low Free T4, which may be consistent with hypothyroidism.''\<rparr>
           else p0]
     else if present_and m ''tsh'' includes_below then
       let p0 = \<lparr>p_name = ''Low TSH Pattern'',
                 description = ''Your results show low TSH, which may indicate reduced thyroid stimulation.'',
                 confidence = ''medium'',
                 biomarkers = [''tsh''],
                 recommendation = ''Consider discussing these results with your healthcare provider.''\<rparr>
       in [if present_and m ''free t4'' includes_above
           then p0\<lparr>biomarkers := biomarkers p0 @ [''free t4''],
                   confidence := ''high'',
                   description := ''Your results show low TSH with high Free T4, which may be consistent with hyperthyroidism.''\<rparr>
           else p0]
     else [])"

definition kidney_patterns :: "(string \<rightharpoonup> biomarker) \<Rightarrow> pattern list" where
  "kidney_patterns m =
    (if present_and m ''creatinine'' includes_above then
       let p0 = \<lparr>p_name = ''Elevated Creatinine Pattern'',
                 description = ''Your results show elevated creatinine, which may indicate reduced kidney function.'',
                 confidence = ''medium'',
                 biomarkers = [''creatinine''],
                 recommendation = ''Consider discussing these results with your healthcare provider.''\<rparr>;
           p1 = (if present_and m ''bun'' includes_above
                 then p0\<lparr>biomarkers := biomarkers p0 @ [''bun''],
                         confidence := ''high'',
                         description := ''Your results show elevated creatinine and BUN, which may indicate reduced kidney function.''\<rparr>
                 else p0);
           p2 = (if present_and m ''egfr'' includes_below
                 then p1\<lparr>biomarkers := biomarkers p1 @ [''egfr''],
                         confidence := ''high'',
                         description := ''Your results show reduced eGFR with elevated creatinine, which may indicate reduced kidney function.''\<rparr>
                 else p1)
       in [p2]
     else [])"

text \<open>The four rule blocks push onto \<open>patterns\<close> in this order.\<close>

definition identifyBiomarkerPatterns :: "biomarker list \<Rightarrow> pattern list" where
  "identifyBiomarkerPatterns bs =
    (let m = biomarkerMap bs
     in anemia_patterns m @ metabolic_patterns m @ thyroid_patterns m @ kidney_patterns m)"

text \<open>
  The conditions of the metabolic rule in the words of the specification: a factor holds
  when the biomarker of that name, the last one of the list under that lower-cased name,
  has a status that says \<open>above\<close> (or \<open>below\<close>); the count is the number of the four
  factors that hold.
\<close>

definition latest :: "biomarker list \<Rightarrow> string \<Rightarrow> biomarker option" where
  "latest bs key = find (\<lambda>b. toLowerCase (b_name b) = key) (rev bs)"

definition factor_holds :: "biomarker list \<Rightarrow> string \<Rightarrow> string \<Rightarrow> bool" where
  "factor_holds bs key word =
    (case latest bs key of None \<Rightarrow> False | Some b \<Rightarrow> js_includes (b_status b) word)"

definition metabolic_factor_count :: "biomarker list \<Rightarrow> nat" where
  "metabolic_factor_count bs =
     of_bool (factor_holds bs ''glucose'' ''above'')
   + of_bool (factor_holds bs ''triglycerides'' ''above'')
   + of_bool (factor_holds bs ''hdl'' ''below'')
   + of_bool (factor_holds bs ''ldl'' ''above'')"

section \<open>Correlation and trend analysis (correlation analysis service)\<close>

text \<open>
  A data point of a series. Its date is a valid \<open>Date\<close>, modelled by its time value in
  milliseconds. The calendar date \<open>date.toISOString().split('T')[0]\<close> is the UTC day; the
  text it prints determines the day number and is determined by it, so the day number
  stands for it as the key of the date maps, and \<open>new Date(key)\<close> is midnight of that day.
\<close>

record dataPoint =
  dp_value :: jsnum
  dp_date :: int
  dp_unit :: string
  dp_referenceMin :: jsval
  dp_referenceMax :: jsval

definition msPerDay :: int where
  "msPerDay = 1000 * 60 * 60 * 24"

definition isoDate :: "int \<Rightarrow> int" where
  "isoDate t = t div msPerDay"

record pairedPoint =
  pp_date :: int
  value1 :: jsnum
  value2 :: jsnum
  unit1 :: string
  unit2 :: string

text \<open>
  A \<open>Map\<close> keeps its keys in insertion order and \<open>set\<close> on a key it already holds
  replaces the value in place: \<open>AList.update\<close>.
\<close>

definition dateMap :: "dataPoint list \<Rightarrow> (int \<times> dataPoint) list" where
  "dateMap ps = foldl (\<lambda>m p. AList.update (isoDate (dp_date p)) p m) [] ps"

definition pairBiomarkerData :: "dataPoint list \<Rightarrow> dataPoint list \<Rightarrow> pairedPoint list" where
  "pairBiomarkerData data1 data2 =
    (let dateMap1 = dateMap data1;
         dateMap2 = dateMap data2;
         pairedData =
           concat (map (\<lambda>(d, point1).
                     case map_of dateMap2 d of
                       None \<Rightarrow> []
                     | Some point2 \<Rightarrow>
                         [\<lparr>pp_date = d * msPerDay,
                           value1 = dp_value point1, value2 = dp_value point2,
                           unit1 = dp_unit point1, unit2 = dp_unit point2\<rparr>])
                   dateMap1)
     in sort_key pp_date pairedData)"

text \<open>
  The calendar days on which both series have a sample: the samples that an exact
  calendar-date match pairs, in the words of the specification.
\<close>

definition paired_days :: "dataPoint list \<Rightarrow> dataPoint list \<Rightarrow> int set" where
  "paired_days data1 data2 =
     (\<lambda>p. isoDate (dp_date p)) ` set data1 \<inter> (\<lambda>p. isoDate (dp_date p)) ` set data2"

text \<open>A sample taken at midnight of a given day, for the examples.\<close>

definition sample :: "rat \<Rightarrow> int \<Rightarrow> dataPoint" where
  "sample v day = \<lparr>dp_value = Fin v, dp_date = day * msPerDay, dp_unit = ''mg/dL'',
     dp_referenceMin = Null, dp_referenceMax = Null\<rparr>"

text \<open>
  \<open>calculatePearsonCorrelation(x, y)\<close>. The loop runs over the indices of \<open>x\<close>; an index
  beyond the end of \<open>y\<close> reads undefined, which the subtraction turns into NaN.
\<close>

definition js_sum :: "jsnum list \<Rightarrow> jsnum" where
  "js_sum xs = foldl js_add (Fin 0) xs"

definition pearson_step ::
  "jsnum list \<Rightarrow> jsnum list \<Rightarrow> jsnum \<Rightarrow> jsnum \<Rightarrow> jsnum \<times> jsnum \<times> jsnum \<Rightarrow> nat
     \<Rightarrow> jsnum \<times> jsnum \<times> jsnum" where
  "pearson_step x y meanX meanY acc i =
    (case acc of (covariance, varX, varY) \<Rightarrow>
       let diffX = js_sub (x ! i) meanX;
           diffY = js_sub (if i < length y then y ! i else NaN) meanY
       in (js_add covariance (js_mul diffX diffY),
           js_add varX (js_mul diffX diffX),
           js_add varY (js_mul diffY diffY)))"

definition calculatePearsonCorrelation :: "jsnum list \<Rightarrow> jsnum list \<Rightarrow> jsnum" where
  "calculatePearsonCorrelation x y =
    (let n = Fin (of_nat (length x));
         meanX = js_div (js_sum x) n;
         meanY = js_div (js_sum y) n
     in case foldl (pearson_step x y meanX meanY) (Fin 0, Fin 0, Fin 0) [0 ..< length x] of
          (covariance, varX, varY) \<Rightarrow>
            let stdX = js_sqrt varX;
                stdY = js_sqrt varY
            in if js_eq stdX (Fin 0) \<or> js_eq stdY (Fin 0) then Fin 0
               else js_div covariance (js_mul stdX stdY))"

definition interpretCorrelation :: "jsnum \<Rightarrow> string" where
  "interpretCorrelation coefficient =
    (let absCoeff = js_abs coefficient
     in if js_ge absCoeff (js_lit (8 / 10))
        then (if js_gt coefficient (Fin 0) then ''strong positive'' else ''strong negative'')
        else if js_ge absCoeff (Fin (1 / 2))
        then (if js_gt coefficient (Fin 0) then ''moderate positive'' else ''moderate negative'')
        else if js_ge absCoeff (js_lit (3 / 10))
        then (if js_gt coefficient (Fin 0) then ''weak positive'' else ''weak negative'')
        else ''no significant'')"

record correlation =
  biomarker1 :: string
  biomarker2 :: string
  coefficient :: jsnum
  c_dataPoints :: nat
  relationship :: string
  pairedData :: "pairedPoint list"

text \<open>
  \<open>calculateCorrelations(biomarkerData)\<close>. The argument object is given by its own
  properties in the order \<open>Object.keys\<close> lists them: name and series.
\<close>

definition correlate_pair ::
  "(string \<times> dataPoint list) list \<Rightarrow> nat \<Rightarrow> nat \<Rightarrow> correlation list" where
  "correlate_pair biomarkerData i j =
    (let name1 = fst (biomarkerData ! i);
         name2 = fst (biomarkerData ! j);
         paired = pairBiomarkerData (snd (biomarkerData ! i)) (snd (biomarkerData ! j))
     in if 3 \<le> length paired then
          let coeff = calculatePearsonCorrelation (map value1 paired) (map value2 paired)
          in [\<lparr>biomarker1 = name1, biomarker2 = name2,
                coefficient = toFixed2 coeff,
                c_dataPoints = length paired,
                relationship = interpretCorrelation coeff,
                pairedData = paired\<rparr>]
        else [])"

definition calculateCorrelations :: "(string \<times> dataPoint list) list \<Rightarrow> correlation list" where
  "calculateCorrelations biomarkerData =
    concat (map (\<lambda>i. concat (map (\<lambda>j. correlate_pair biomarkerData i j)
                                [i + 1 ..< length biomarkerData]))
                [0 ..< length biomarkerData])"

text \<open>
  \<open>calculateTrend(biomarkerName, dataPoints)\<close>. \<open>linearRegression\<close> is imported from a
  package outside the repository, so it is a parameter: any function from the two arrays
  to a slope and an intercept. \<open>Math.pow(v, 2)\<close> is the rounded square. Reading
  \<open>dataPoints[0].date\<close> of an empty array throws a TypeError.
\<close>

datatype js_error = TypeError

record regression =
  reg_slope :: jsnum
  reg_intercept :: jsnum

record timeSpan =
  ts_start :: int
  ts_end :: int
  durationDays :: jsnum

record trendValues =
  slope :: jsnum
  intercept :: jsnum
  rSquared :: jsnum
  percentChange :: jsnum

record trendResult =
  t_biomarkerName :: string
  t_dataPoints :: nat
  t_timeSpan :: timeSpan
  trend :: trendValues
  direction :: string
  significance :: string
  t_unit :: string
  t_referenceRange :: range

definition js_square :: "jsnum \<Rightarrow> jsnum" where
  "js_square v = js_mul v v"

definition js_time :: "int \<Rightarrow> jsnum" where
  "js_time t = Fin (of_int t)"

definition calculateTrend ::
  "(jsnum list \<Rightarrow> jsnum list \<Rightarrow> regression) \<Rightarrow> string \<Rightarrow> dataPoint list
     \<Rightarrow> js_error + trendResult" where
  "calculateTrend linearRegression biomarkerName dataPoints =
    (let points = sort_key dp_date dataPoints;
         x = map (\<lambda>point. js_time (dp_date point)) points;
         y = map dp_value points;
         minX = foldl js_min PInf x;
         normalizedX = map (\<lambda>val. js_div (js_sub val minX) (js_time msPerDay)) x;
         reg = linearRegression normalizedX y;
         predictedValues = map (\<lambda>x. js_add (js_mul (reg_slope reg) x) (reg_intercept reg)) normalizedX;
         residuals = map (\<lambda>(actual, predicted). js_sub actual predicted) (zip y predictedValues);
         meanY = js_div (js_sum y) (Fin (of_nat (length y)));
         totalSumSquares = foldl (\<lambda>sum val. js_add sum (js_square (js_sub val meanY))) (Fin 0) y;
         residualSumSquares = foldl (\<lambda>sum val. js_add sum (js_square val)) (Fin 0) residuals;
         rSq = js_sub (Fin 1) (js_div residualSumSquares totalSumSquares)
     in case points of
          [] \<Rightarrow> Inl TypeError
        | first # rest \<Rightarrow>
            let firstValue = dp_value first;
                lastValue = dp_value (last points);
                pc = (if firstValue \<noteq> Fin 0
                      then js_mul (js_div (js_sub lastValue firstValue) (js_abs firstValue)) (Fin 100)
                      else Fin 0)
            in Inr \<lparr>t_biomarkerName = biomarkerName,
                    t_dataPoints = length points,
                    t_timeSpan =
                      \<lparr>ts_start = dp_date first,
                       ts_end = dp_date (last points),
                       durationDays =
                         js_div (js_sub (js_time (dp_date (last points))) (js_time (dp_date first)))
                           (js_time msPerDay)\<rparr>,
                    trend = \<lparr>slope = reg_slope reg, intercept = reg_intercept reg,
                             rSquared = toFixed2 rSq, percentChange = toFixed2 pc\<rparr>,
                    direction =
                      (if js_gt (reg_slope reg) (Fin 0) then ''increasing''
                       else if js_lt (reg_slope reg) (Fin 0) then ''decreasing'' else ''stable''),
                    significance =
                      (if js_ge (js_abs (reg_slope reg)) (js_lit (1 / 10))
                       then ''significant'' else ''not significant''),
                    t_unit = dp_unit first,
                    t_referenceRange =
                      \<lparr>range_min = dp_referenceMin first, range_max = dp_referenceMax first\<rparr>\<rparr>)"

section \<open>Properties of the rounding\<close>

lemma pow2_pos: "0 < pow2 e"
  by (simp add: pow2_def)

lemma bitlen_nonneg: "0 \<le> bitlen n"
proof (induction n rule: bitlen.induct)
  case (1 n)
  then show ?case by (subst bitlen.simps) auto
qed

lemma bitlen_mono: "a \<le> b \<Longrightarrow> bitlen a \<le> bitlen b"
proof (induction b arbitrary: a rule: bitlen.induct)
  case (1 b)
  show ?case
  proof (cases "a \<le> 0")
    case True
    then have "bitlen a = 0" by (subst bitlen.simps) simp
    then show ?thesis by (simp add: bitlen_nonneg)
  next
    case False
    with 1(2) have b: "\<not> b \<le> 0" by simp
    have "a div 2 \<le> b div 2" using 1(2) by (simp add: zdiv_mono1)
    with 1(1) b have "bitlen (a div 2) \<le> bitlen (b div 2)" by simp
    then show ?thesis
      using False b by (subst bitlen.simps, subst (2) bitlen.simps) simp
  qed
qed

lemma binade_le_zero: "0 < x \<Longrightarrow> x \<le> 1 \<Longrightarrow> binade x \<le> 0"
proof -
  assume x: "0 < x" "x \<le> 1"
  obtain p q where pq: "quotient_of x = (p, q)" by (cases "quotient_of x")
  then have q: "0 < q" and xe: "x = of_int p / of_int q"
    using quotient_of_denom_pos quotient_of_div by blast+
  from x(2) xe q have "p \<le> q"
    by (simp add: divide_le_eq)  
  then have "bitlen p - bitlen q \<le> 0" using bitlen_mono by simp
  then show ?thesis using pq by (simp add: binade_def Let_def)
qed

lemma round_even_bounds: "\<lfloor>x\<rfloor> \<le> round_even x \<and> round_even x \<le> \<lceil>x\<rceil>"
  unfolding round_even_def Let_def
  by (auto simp: ceiling_altdef) 

lemma round_even_nonneg: "0 \<le> x \<Longrightarrow> 0 \<le> round_even x"
  using round_even_bounds [of x] by (meson order_trans zero_le_floor)

lemma round_even_nonpos: "x \<le> 0 \<Longrightarrow> round_even x \<le> 0"
  using round_even_bounds [of x] by (meson order_trans ceiling_le_zero)

lemma round_even_le_int: "x \<le> of_int N \<Longrightarrow> round_even x \<le> N"
  using round_even_bounds [of x] by (meson order_trans ceiling_le)

lemma fl_not_NaN: "fl x \<noteq> NaN"
  by (simp add: fl_def Let_def overflow_def)

lemma fl_eq:
  assumes "x \<noteq> 0" and "max (binade \<bar>x\<bar>) (- 1022) = e" and "e < 1023"
  shows "fl x = Fin (of_int (round_even (x / pow2 (e - 52))) * pow2 (e - 52))"
  using assms by (simp add: fl_def Let_def)

lemma fl_shape:
  "(x = 0 \<and> fl x = Fin 0) \<or> (x \<noteq> 0 \<and> fl x = overflow x) \<or>
   (\<exists>k. fl x = Fin (of_int (round_even (x / pow2 k)) * pow2 k))"
proof (cases "x = 0")
  case True
  then show ?thesis by (simp add: fl_def)
next
  case False
  define e where "e = max (binade \<bar>x\<bar>) (- 1022)"
  define n where "n = round_even (x / pow2 (e - 52))"
  have unf: "fl x = (if 1023 < e then overflow x
      else if e = 1023 \<and> 2 ^ 53 \<le> \<bar>n\<bar> then overflow x
      else Fin (of_int n * pow2 (e - 52)))"
    using False unfolding fl_def Let_def e_def n_def by simp
  show ?thesis
  proof (cases "1023 < e \<or> (e = 1023 \<and> 2 ^ 53 \<le> \<bar>n\<bar>)")
    case True
    then have "fl x = overflow x" unfolding unf by auto
    with False show ?thesis by simp
  next
    case False
    then have "fl x = Fin (of_int n * pow2 (e - 52))" unfolding unf by auto
    then show ?thesis unfolding n_def by blast
  qed
qed

lemma fl_nonneg: "0 \<le> x \<Longrightarrow> fl x = PInf \<or> (\<exists>r. 0 \<le> r \<and> fl x = Fin r)"
proof -
  assume x: "0 \<le> x"
  have "0 \<le> of_int (round_even (x / pow2 k)) * pow2 k" for k
    using x pow2_pos [of k] by (simp add: round_even_nonneg)
  then show ?thesis
    using fl_shape [of x] x by (auto simp: overflow_def)
qed

lemma fl_nonpos: "x \<le> 0 \<Longrightarrow> fl x = NInf \<or> (\<exists>r. r \<le> 0 \<and> fl x = Fin r)"
proof -
  assume x: "x \<le> 0"
  have "of_int (round_even (x / pow2 k)) * pow2 k \<le> 0" for k
    using x pow2_pos [of k]
    by (simp add: round_even_nonpos mult_nonpos_nonneg divide_nonpos_pos)
  then show ?thesis
    using fl_shape [of x] x by (auto simp: overflow_def)
qed

lemma fl_le_one: "x \<le> 1 \<Longrightarrow> fl x = NInf \<or> (\<exists>r. r \<le> 1 \<and> fl x = Fin r)"
proof (cases "x \<le> 0")
  case True
  then show ?thesis using fl_nonpos [of x] by fastforce
next
  case False
  assume x1: "x \<le> 1"
  from False have x0: "0 < x" by simp
  define e where "e = max (binade \<bar>x\<bar>) (- 1022)"
  have e0: "e \<le> 0" using binade_le_zero [of x] x0 x1 by (simp add: e_def)
  define N :: int where "N = 2 ^ nat (52 - e)"
  have u: "pow2 (e - 52) = 1 / of_int N" using e0 by (simp add: pow2_def N_def)
  have Npos: "0 < N" by (simp add: N_def)
  have "x / pow2 (e - 52) = x * of_int N" by (simp add: u)
  also have "\<dots> \<le> of_int N" using x1 Npos by (simp add: mult_le_cancel_right1)
  finally have "round_even (x / pow2 (e - 52)) \<le> N" by (rule round_even_le_int)
  then have "of_int (round_even (x / pow2 (e - 52))) * pow2 (e - 52) \<le> (1::rat)"
    using Npos by (simp add: u divide_le_eq)
  moreover have "fl x = Fin (of_int (round_even (x / pow2 (e - 52))) * pow2 (e - 52))"
    using x0 e0 by (intro fl_eq) (auto simp: e_def)
  ultimately show ?thesis by blast
qed

lemma js_lit_tenth: "js_lit (1 / 10) = Fin (3602879701896397 / 36028797018963968)"
  by code_simp

lemma js_lit_nine_tenths: "js_lit (9 / 10) = Fin (8106479329266893 / 9007199254740992)"
  by code_simp

lemma fl_zero: "fl 0 = Fin 0"
  by (simp add: fl_def)

lemma nonneg_fl: "0 \<le> x \<Longrightarrow> nonneg (fl x)"
  using fl_nonneg [of x] by (auto simp: nonneg_def)

lemma nonneg_round: "nonneg a \<Longrightarrow> nonneg (js_round a)"
  by (auto simp: nonneg_def)

lemma nonneg_neg: "nonneg a \<Longrightarrow> js_ge (Fin 0) (js_neg a)"
  by (auto simp: nonneg_def js_ge_def)

lemma nonneg_times: "nonneg a \<Longrightarrow> nonneg (js_mul a (Fin 100))"
proof (cases a)
  case (Fin r)
  assume "nonneg a"
  with Fin have "0 \<le> r * 100" by (simp add: nonneg_def)
  then show ?thesis using Fin by (simp add: nonneg_fl)
qed (auto simp: nonneg_def)

lemma one_minus_ratio:
  assumes "0 < lo" and "js_lt v (Fin lo)"
  shows "nonneg (js_sub (Fin 1) (js_div v (Fin lo)))"
proof (cases v)
  case (Fin a)
  with assms have "a / lo \<le> 1" by (simp add: divide_le_eq)
  then consider "fl (a / lo) = NInf" | r where "r \<le> 1" "fl (a / lo) = Fin r"
    using fl_le_one by blast
  then show ?thesis
  proof cases
    case 1
    then show ?thesis using Fin assms by (simp add: js_sub_def nonneg_def)
  next
    case 2
    then show ?thesis using Fin assms by (simp add: js_sub_def nonneg_fl)
  qed
next
  case PInf
  with assms show ?thesis by simp
next
  case NInf
  with assms show ?thesis by (simp add: js_sub_def nonneg_def)
next
  case NaN
  with assms show ?thesis by simp
qed

text \<open>Well-known binary64 results, as a check of the model: 0.1 + 0.2, the square root of 2, 1 / 3.\<close>

lemma binary64_examples:
  "js_add (js_lit (1 / 10)) (js_lit (2 / 10)) = Fin (1351079888211149 / 4503599627370496)"
  "js_add (js_lit (1 / 10)) (js_lit (2 / 10)) \<noteq> js_lit (3 / 10)"
  "js_sqrt (Fin 2) = Fin (6369051672525773 / 4503599627370496)"
  "js_div (Fin 1) (Fin 3) = Fin (6004799503160661 / 18014398509481984)"
  by code_simp+

section \<open>The status classifier\<close>

text \<open>
  Claim C2, as the code has it. For a finite lower bound \<open>min > 0\<close> and every value with
  \<open>value < min\<close> (minus infinity included), whatever the upper bound:
  the status is \<open>below_range\<close>; \<open>percentFromRange\<close> is the negated
  \<open>Math.round((1 - value / min) * 100)\<close>, hence zero or negative and never NaN; the
  severity is \<open>high\<close> when \<open>(min - value) / min > 0.5\<close> and \<open>low\<close> otherwise.
\<close>

theorem determineAbnormalStatus_below:
  assumes "0 < lo" and "js_lt v (Fin lo)"
  shows "status (determineAbnormalStatus v (Num (Fin lo)) hi demo) = ''below_range''
    \<and> percentFromRange (determineAbnormalStatus v (Num (Fin lo)) hi demo)
        = js_neg (js_round (js_mul (js_sub (Fin 1) (js_div v (Fin lo))) (Fin 100)))
    \<and> js_ge (Fin 0) (percentFromRange (determineAbnormalStatus v (Num (Fin lo)) hi demo))
    \<and> severity (determineAbnormalStatus v (Num (Fin lo)) hi demo)
        = (if js_gt (js_div (js_sub (Fin lo) v) (Fin lo)) (Fin (1 / 2)) then ''high'' else ''low'')"
proof -
  have "js_ge (Fin 0) (js_neg (js_round (js_mul (js_sub (Fin 1) (js_div v (Fin lo))) (Fin 100))))"
    using one_minus_ratio [OF assms] by (intro nonneg_neg nonneg_round nonneg_times)
  then show ?thesis
    using assms(2) by (simp add: determineAbnormalStatus_def)
qed

theorem determineAbnormalStatus_below_witness:
  "(0::rat) < 10 \<and> js_lt (Fin 5) (Fin 10)
   \<and> status (determineAbnormalStatus (Fin 5) (Num (Fin 10)) (Num (Fin 20)) \<lparr>age = Undefined, sex = None\<rparr>) = ''below_range''
   \<and> percentFromRange (determineAbnormalStatus (Fin 5) (Num (Fin 10)) (Num (Fin 20)) \<lparr>age = Undefined, sex = None\<rparr>) = Fin (- 50)
   \<and> severity (determineAbnormalStatus (Fin 5) (Num (Fin 10)) (Num (Fin 20)) \<lparr>age = Undefined, sex = None\<rparr>) = ''low''"
proof -
  have h1: "(0::rat) < 10" by simp
  have h2: "js_lt (Fin 5) (Fin 10)" by simp
  have e1: "js_neg (js_round (js_mul (js_sub (Fin 1) (js_div (Fin 5) (Fin 10))) (Fin 100))) = Fin (- 50)"
    by code_simp
  have e2: "js_gt (js_div (js_sub (Fin 10) (Fin 5)) (Fin 10)) (Fin (1 / 2)) = False"
    by code_simp
  show ?thesis
    using determineAbnormalStatus_below [OF h1 h2, of "Num (Fin 20)" "\<lparr>age = Undefined, sex = None\<rparr>"]
      h1 h2
    unfolding e1 e2 by simp
qed

text \<open>
  Claim C2 as stated asks for the magnitude \<open>Math.round((1 - value / min) * 100)\<close>, a
  number that is not negative. At value 5 and range 10 to 20 that magnitude is 50 and the
  code returns -50.
\<close>

theorem below_range_percent_counterexample:
  "js_round (js_mul (js_sub (Fin 1) (js_div (Fin 5) (Fin 10))) (Fin 100)) = Fin 50
   \<and> percentFromRange (determineAbnormalStatus (Fin 5) (Num (Fin 10)) (Num (Fin 20)) \<lparr>age = Undefined, sex = None\<rparr>) = Fin (- 50)
   \<and> \<not> js_ge (percentFromRange (determineAbnormalStatus (Fin 5) (Num (Fin 10)) (Num (Fin 20)) \<lparr>age = Undefined, sex = None\<rparr>)) (Fin 0)"
  by code_simp

lemma boundary_position:
  "js_div (js_sub (Fin lo) (Fin lo)) w = Fin 0 \<or> js_div (js_sub (Fin lo) (Fin lo)) w = NaN"
  by (cases w) (auto simp: js_sub_def fl_zero)

lemma boundary_status:
  assumes "lo \<le> hi"
  shows "status (determineAbnormalStatus (Fin lo) (Num (Fin lo)) (Num (Fin hi)) demo)
           \<in> {''borderline_low'', ''normal''}"
proof -
  have "\<not> js_lt (Fin lo) (Fin lo)" "\<not> js_gt (Fin lo) (Fin hi)"
    using assms by (simp_all add: js_gt_def)
  then show ?thesis
    using boundary_position [of lo "js_sub (Fin hi) (Fin lo)"]
    by (auto simp: determineAbnormalStatus_def Let_def js_lit_tenth js_lit_nine_tenths js_gt_def)
qed

text \<open>
  Claim C6. \<open>classify(95, 70, 99)\<close> is \<open>normal\<close>; \<open>classify(240, 125, 200)\<close> is
  \<open>above_range\<close> with \<open>percentFromRange = 20\<close>; \<open>classify(11, 13.5, 17.5)\<close> is
  \<open>below_range\<close>. At the boundary \<open>value = min\<close> of a range \<open>min \<le> max\<close> the status is an
  in-range one (\<open>borderline_low\<close>, or \<open>normal\<close> when the range is a single point), and
  whatever the two bounds are it is not \<open>below_range\<close>.
\<close>

theorem classify_examples:
  "status (determineAbnormalStatus (Fin 95) (Num (Fin 70)) (Num (Fin 99)) demo) = ''normal''
   \<and> status (determineAbnormalStatus (Fin 240) (Num (Fin 125)) (Num (Fin 200)) demo) = ''above_range''
   \<and> percentFromRange (determineAbnormalStatus (Fin 240) (Num (Fin 125)) (Num (Fin 200)) demo) = Fin 20
   \<and> status (determineAbnormalStatus (Fin 11) (Num (js_lit (135 / 10))) (Num (js_lit (175 / 10))) demo)
        = ''below_range''
   \<and> (\<forall>lo hi. lo \<le> hi \<longrightarrow>
          status (determineAbnormalStatus (Fin lo) (Num (Fin lo)) (Num (Fin hi)) demo)
            \<in> {''borderline_low'', ''normal''})
   \<and> (\<forall>lo hi. status (determineAbnormalStatus (Fin lo) (Num (Fin lo)) (Num (Fin hi)) demo)
          \<noteq> ''below_range'')"
proof -
  have 1: "status (determineAbnormalStatus (Fin 95) (Num (Fin 70)) (Num (Fin 99)) demo) = ''normal''"
    by code_simp
  have 2: "status (determineAbnormalStatus (Fin 240) (Num (Fin 125)) (Num (Fin 200)) demo) = ''above_range''"
    by code_simp
  have 3: "percentFromRange (determineAbnormalStatus (Fin 240) (Num (Fin 125)) (Num (Fin 200)) demo) = Fin 20"
    by code_simp
  have 4: "status (determineAbnormalStatus (Fin 11) (Num (js_lit (135 / 10))) (Num (js_lit (175 / 10))) demo)
        = ''below_range''"
    by code_simp
  have 6: "status (determineAbnormalStatus (Fin lo) (Num (Fin lo)) (Num (Fin hi)) demo) \<noteq> ''below_range''"
    for lo hi
    by (simp add: determineAbnormalStatus_def Let_def)
  show ?thesis
    using 1 2 3 4 6 boundary_status by blast
qed

theorem classify_examples_witness:
  "(70::rat) \<le> 99
   \<and> status (determineAbnormalStatus (Fin 70) (Num (Fin 70)) (Num (Fin 99)) \<lparr>age = Undefined, sex = None\<rparr>)
       \<in> {''borderline_low'', ''normal''}"
proof -
  have h: "(70::rat) \<le> 99" by simp
  show ?thesis
    using classify_examples [of "\<lparr>age = Undefined, sex = None\<rparr>"] h by blast
qed

section \<open>Normalization\<close>

text \<open>
  The reverse path of \<open>convertUnit\<close>, here from the unit \<open>mmol/L_chol\<close> to mg/dL, keeps
  the sign of an infinite value.
\<close>

lemma convertUnit_reverse_infinite:
  "convertUnit NInf ''mmol/L_chol'' (Some ''mg/dL'') = NInf"
  "convertUnit PInf ''mmol/L_chol'' (Some ''mg/dL'') = PInf"
  by code_simp+

text \<open>
  The status of the classifier is one of five words, for all arguments; \<open>unknown\<close> is
  not among them.
\<close>

lemma status_values:
  "status (determineAbnormalStatus v lo hi demo)
     \<in> {''below_range'', ''above_range'', ''borderline_low'', ''borderline_high'', ''normal''}"
  by (simp add: determineAbnormalStatus_def Let_def)

text \<open>For a name without canonical mapping the input record comes back as it is.\<close>

lemma unmapped_name_returns_input:
  "standardizeBiomarker (m_name d) = None \<Longrightarrow>
     normalizeBiomarker d demo = Unstandardized d ''Unknown biomarker''"
  by (simp add: normalizeBiomarker_def)

text \<open>
  Claim C1 asks for status \<open>unknown\<close>, severity \<open>none\<close> and percentFromRange 0 whenever no
  reference range is resolvable. The code misses it on each path. MCV 90 fL, a mapped
  biomarker with no supplied range and no default range, gets the bounds null and null
  and is classified against them: \<open>above_range\<close>, \<open>high\<close>, Infinity. The unmapped name
  \<open>New Test\<close> gets a result with no status at all. \<open>classify(42, undefined, undefined)\<close> is
  \<open>normal\<close>.
\<close>

theorem unresolvable_range_not_unknown:
  "normalizeBiomarker \<lparr>m_name = ''MCV'', m_value = Fin 90, m_unit = ''fL'',
       m_referenceMin = Undefined, m_referenceMax = Undefined\<rparr> \<lparr>age = Undefined, sex = None\<rparr>
     = Standardized
         \<lparr>n_code = Some ''787-2'', n_name = ''mcv'', n_originalName = ''MCV'',
          n_value = Fin 90, n_originalValue = Fin 90, n_unit = Some ''fL'',
          n_originalUnit = ''fL'', n_category = Some ''CBC'',
          n_referenceMin = Null, n_referenceMax = Null,
          n_status = ''above_range'', n_severity = ''high'', n_percentFromRange = PInf\<rparr>
   \<and> normalizeBiomarker \<lparr>m_name = ''New Test'', m_value = Fin 42, m_unit = ''units'',
       m_referenceMin = Undefined, m_referenceMax = Undefined\<rparr> \<lparr>age = Undefined, sex = None\<rparr>
     = Unstandardized \<lparr>m_name = ''New Test'', m_value = Fin 42, m_unit = ''units'',
         m_referenceMin = Undefined, m_referenceMax = Undefined\<rparr> ''Unknown biomarker''
   \<and> result_status (normalizeBiomarker \<lparr>m_name = ''New Test'', m_value = Fin 42, m_unit = ''units'',
       m_referenceMin = Undefined, m_referenceMax = Undefined\<rparr> \<lparr>age = Undefined, sex = None\<rparr>) = None
   \<and> determineAbnormalStatus (Fin 42) Undefined Undefined \<lparr>age = Undefined, sex = None\<rparr>
     = \<lparr>status = ''normal'', severity = ''none'', percentFromRange = Fin 0\<rparr>
   \<and> determineAbnormalStatus (Fin 90) Null Null \<lparr>age = Undefined, sex = None\<rparr>
     = \<lparr>status = ''above_range'', severity = ''high'', percentFromRange = PInf\<rparr>"
  by code_simp

theorem unresolvable_range_not_unknown_witness:
  "result_status (normalizeBiomarker \<lparr>m_name = ''MCV'', m_value = Fin 90, m_unit = ''fL'',
       m_referenceMin = Undefined, m_referenceMax = Undefined\<rparr> \<lparr>age = Undefined, sex = None\<rparr>)
     = Some ''above_range''
   \<and> result_severity (normalizeBiomarker \<lparr>m_name = ''MCV'', m_value = Fin 90, m_unit = ''fL'',
       m_referenceMin = Undefined, m_referenceMax = Undefined\<rparr> \<lparr>age = Undefined, sex = None\<rparr>)
     = Some ''high''
   \<and> result_percentFromRange (normalizeBiomarker \<lparr>m_name = ''MCV'', m_value = Fin 90, m_unit = ''fL'',
       m_referenceMin = Undefined, m_referenceMax = Undefined\<rparr> \<lparr>age = Undefined, sex = None\<rparr>)
     = Some PInf
   \<and> status (determineAbnormalStatus (Fin 42) Undefined Undefined \<lparr>age = Undefined, sex = None\<rparr>)
     = ''normal''"
  using unresolvable_range_not_unknown
  by (simp add: result_status_def result_severity_def result_percentFromRange_def)

text \<open>
  For every inverted range, \<open>referenceMin > referenceMax\<close>: both middleware checks answer
  400 (the second one for bounds other than zero), while \<open>determineAbnormalStatus\<close>
  returns \<open>below_range\<close> for a value under the minimum and \<open>above_range\<close> for every other
  finite value.
\<close>

lemma inverted_range_middleware:
  assumes "hi < lo"
  shows "validateReferenceRanges (Num (Fin lo)) (Num (Fin hi))
           = Status400 ''Reference minimum cannot be greater than reference maximum''"
    and "lo \<noteq> 0 \<Longrightarrow> hi \<noteq> 0 \<Longrightarrow> 0 \<le> v \<Longrightarrow>
         validateDataIntegrity (Num (Fin v)) (Num (Fin lo)) (Num (Fin hi))
           = Status400 ''Reference minimum cannot be greater than reference maximum''"
  using assms
  by (simp_all add: validateReferenceRanges_def validateDataIntegrity_def parseFloat_def js_gt_def)

lemma inverted_range_status:
  assumes "hi < lo"
  shows "status (determineAbnormalStatus (Fin x) (Num (Fin lo)) (Num (Fin hi)) demo)
           = (if x < lo then ''below_range'' else ''above_range'')"
  using assms by (simp add: determineAbnormalStatus_def Let_def js_gt_def)

text \<open>
  Claim C3 asks that the classification rejects a supplied \<open>referenceMin > referenceMax\<close>.
  The two request checks \<open>validateReferenceRanges\<close> and \<open>validateDataIntegrity\<close> answer 400
  to the bounds 10 and 1; the path of a parsed report has no such check, and on it
  \<open>normalizeBiomarker\<close> and \<open>determineAbnormalStatus\<close> return a classified result for the
  same bounds: glucose 5 mg/dL is \<open>below_range\<close>, \<open>low\<close>, -50.
\<close>

theorem inverted_range_not_rejected:
  "normalizeBiomarker \<lparr>m_name = ''Glucose'', m_value = Fin 5, m_unit = ''mg/dL'',
         m_referenceMin = Num (Fin 10), m_referenceMax = Num (Fin 1)\<rparr> \<lparr>age = Undefined, sex = None\<rparr>
     = Standardized
         \<lparr>n_code = Some ''2345-7'', n_name = ''glucose'', n_originalName = ''Glucose'',
          n_value = Fin 5, n_originalValue = Fin 5, n_unit = Some ''mg/dL'',
          n_originalUnit = ''mg/dL'', n_category = Some ''CMP'',
          n_referenceMin = Num (Fin 10), n_referenceMax = Num (Fin 1),
          n_status = ''below_range'', n_severity = ''low'', n_percentFromRange = Fin (- 50)\<rparr>
   \<and> determineAbnormalStatus (Fin 5) (Num (Fin 10)) (Num (Fin 1)) \<lparr>age = Undefined, sex = None\<rparr>
     = \<lparr>status = ''below_range'', severity = ''low'', percentFromRange = Fin (- 50)\<rparr>
   \<and> validateReferenceRanges (Num (Fin 10)) (Num (Fin 1))
     = Status400 ''Reference minimum cannot be greater than reference maximum''
   \<and> validateDataIntegrity (Num (Fin 5)) (Num (Fin 10)) (Num (Fin 1))
     = Status400 ''Reference minimum cannot be greater than reference maximum''"
  by code_simp

theorem inverted_range_not_rejected_witness:
  "result_status (normalizeBiomarker \<lparr>m_name = ''Glucose'', m_value = Fin 5, m_unit = ''mg/dL'',
         m_referenceMin = Num (Fin 10), m_referenceMax = Num (Fin 1)\<rparr> \<lparr>age = Undefined, sex = None\<rparr>)
     = Some ''below_range''
   \<and> status (determineAbnormalStatus (Fin 5) (Num (Fin 10)) (Num (Fin 1)) \<lparr>age = Undefined, sex = None\<rparr>)
     = ''below_range''"
  using inverted_range_not_rejected by (simp add: result_status_def)

text \<open>Two supplied bounds that are numbers other than 0 and NaN are the ones used.\<close>

lemma supplied_bounds_used:
  assumes "standardizeBiomarker (m_name d) \<noteq> None"
    and "truthy (m_referenceMin d)" and "truthy (m_referenceMax d)"
  shows "\<exists>n. normalizeBiomarker d demo = Standardized n
    \<and> n_referenceMin n = m_referenceMin d \<and> n_referenceMax n = m_referenceMax d
    \<and> n_status n = status (determineAbnormalStatus (n_value n) (m_referenceMin d) (m_referenceMax d) demo)"
  using assms by (auto simp: normalizeBiomarker_def Let_def)

text \<open>
  Claim C5 asks that supplied bounds, a supplied minimum of 0 included, are the ones the
  value is classified against. The test \<open>!referenceMin || !referenceMax\<close> takes a supplied
  0 for a missing bound: LDL 150 mg/dL with the supplied range 0 to 200 is classified
  against the default range 0 to 100 and comes out \<open>above_range\<close> by 50 percent, where
  the supplied range gives \<open>normal\<close>.
\<close>

theorem zero_minimum_replaced_by_default:
  "normalizeBiomarker \<lparr>m_name = ''LDL'', m_value = Fin 150, m_unit = ''mg/dL'',
       m_referenceMin = Num (Fin 0), m_referenceMax = Num (Fin 200)\<rparr> \<lparr>age = Undefined, sex = None\<rparr>
     = Standardized
         \<lparr>n_code = Some ''13457-7'', n_name = ''ldl'', n_originalName = ''LDL'',
          n_value = Fin 150, n_originalValue = Fin 150, n_unit = Some ''mg/dL'',
          n_originalUnit = ''mg/dL'', n_category = Some ''Lipid'',
          n_referenceMin = Num (Fin 0), n_referenceMax = Num (Fin 100),
          n_status = ''above_range'', n_severity = ''low'', n_percentFromRange = Fin 50\<rparr>
   \<and> determineAbnormalStatus (Fin 150) (Num (Fin 0)) (Num (Fin 200)) \<lparr>age = Undefined, sex = None\<rparr>
     = \<lparr>status = ''normal'', severity = ''none'', percentFromRange = Fin 0\<rparr>"
  by code_simp

theorem zero_minimum_replaced_by_default_witness:
  "result_status (normalizeBiomarker \<lparr>m_name = ''LDL'', m_value = Fin 150, m_unit = ''mg/dL'',
       m_referenceMin = Num (Fin 0), m_referenceMax = Num (Fin 200)\<rparr> \<lparr>age = Undefined, sex = None\<rparr>)
     = Some ''above_range''
   \<and> status (determineAbnormalStatus (Fin 150) (Num (Fin 0)) (Num (Fin 200)) \<lparr>age = Undefined, sex = None\<rparr>)
     = ''normal''"
  using zero_minimum_replaced_by_default by (simp add: result_status_def)

section \<open>Pattern detection\<close>

lemma biomarkerMap_fold:
  "foldl (\<lambda>m b. m(toLowerCase (b_name b) \<mapsto> b)) m0 bs key =
     (case latest bs key of None \<Rightarrow> m0 key | Some b \<Rightarrow> Some b)"
  by (induction bs rule: rev_induct) (auto simp: latest_def)

lemma biomarkerMap_latest: "biomarkerMap bs key = latest bs key"
  by (simp add: biomarkerMap_def biomarkerMap_fold split: option.split)

lemma present_and_above:
  "present_and (biomarkerMap bs) key includes_above = factor_holds bs key ''above''"
  by (simp add: present_and_def factor_holds_def biomarkerMap_latest includes_above_def split: option.split)

lemma present_and_below:
  "present_and (biomarkerMap bs) key includes_below = factor_holds bs key ''below''"
  by (simp add: present_and_def factor_holds_def biomarkerMap_latest includes_below_def split: option.split)

lemma metabolic_count:
  "length (presentMetabolicFactors (biomarkerMap bs)) = metabolic_factor_count bs"
  by (simp add: presentMetabolicFactors_def metabolicRiskFactors_def metabolic_factor_count_def
      present_and_above present_and_below)

lemma anemia_shape:
  "anemia_patterns m = [] \<or> (\<exists>p. anemia_patterns m = [p] \<and> p_name p = ''Potential Anemia Pattern'')"
  by (simp add: anemia_patterns_def Let_def)

lemma metabolic_shape:
  "metabolic_patterns m = [] \<or>
   (\<exists>p. metabolic_patterns m = [p] \<and> p_name p = ''Potential Metabolic Risk Pattern'')"
  by (simp add: metabolic_patterns_def Let_def)

lemma thyroid_shape:
  "thyroid_patterns m = [] \<or>
   (\<exists>p. thyroid_patterns m = [p] \<and> p_name p = ''Elevated TSH Pattern'') \<or>
   (\<exists>p. thyroid_patterns m = [p] \<and> p_name p = ''Low TSH Pattern'')"
  by (simp add: thyroid_patterns_def Let_def)

lemma kidney_shape:
  "kidney_patterns m = [] \<or>
   (\<exists>p. kidney_patterns m = [p] \<and> p_name p = ''Elevated Creatinine Pattern'')"
  by (simp add: kidney_patterns_def Let_def)

lemma metabolic_in_result:
  "(p \<in> set (identifyBiomarkerPatterns bs) \<and> p_name p = ''Potential Metabolic Risk Pattern'')
    = (metabolic_patterns (biomarkerMap bs) = [p])"
  using anemia_shape [of "biomarkerMap bs"] metabolic_shape [of "biomarkerMap bs"]
    thyroid_shape [of "biomarkerMap bs"] kidney_shape [of "biomarkerMap bs"]
  by (auto simp: identifyBiomarkerPatterns_def Let_def)

text \<open>
  Claim C9. The metabolic-risk pattern is in the result of pattern detection exactly when
  at least 2 of the four conditions (glucose above, triglycerides above, HDL below, LDL
  above) hold for the biomarkers of the list; its confidence is \<open>high\<close> when at least 3
  hold and \<open>medium\<close> when exactly 2 hold; with 1 factor or none there is no such pattern.
\<close>

theorem metabolic_pattern_iff:
  "((\<exists>p \<in> set (identifyBiomarkerPatterns bs). p_name p = ''Potential Metabolic Risk Pattern'')
      \<longleftrightarrow> 2 \<le> metabolic_factor_count bs)
   \<and> (\<forall>p \<in> set (identifyBiomarkerPatterns bs).
         p_name p = ''Potential Metabolic Risk Pattern'' \<longrightarrow>
           confidence p = (if 3 \<le> metabolic_factor_count bs then ''high'' else ''medium''))
   \<and> (metabolic_factor_count bs = 2 \<longrightarrow>
         (\<exists>p \<in> set (identifyBiomarkerPatterns bs).
            p_name p = ''Potential Metabolic Risk Pattern'' \<and> confidence p = ''medium''))
   \<and> (metabolic_factor_count bs \<le> 1 \<longrightarrow>
         \<not> (\<exists>p \<in> set (identifyBiomarkerPatterns bs). p_name p = ''Potential Metabolic Risk Pattern''))"
proof -
  have m: "metabolic_patterns (biomarkerMap bs) = [p] \<longleftrightarrow>
      2 \<le> metabolic_factor_count bs \<and>
      p = \<lparr>p_name = ''Potential Metabolic Risk Pattern'',
            description = ''Your results show '' @ decimal (metabolic_factor_count bs) @
              '' factors that may be associated with metabolic risk: '' @
              join '', '' (presentMetabolicFactors (biomarkerMap bs)) @ ''.'',
            confidence = (if 3 \<le> metabolic_factor_count bs then ''high'' else ''medium''),
            biomarkers = presentMetabolicFactors (biomarkerMap bs),
            recommendation = ''Consider discussing lifestyle factors such as diet and exercise with your healthcare provider.''\<rparr>"
    for p
    by (auto simp: metabolic_patterns_def Let_def metabolic_count)
  have ex: "(\<exists>p \<in> set (identifyBiomarkerPatterns bs). p_name p = ''Potential Metabolic Risk Pattern'')
      \<longleftrightarrow> 2 \<le> metabolic_factor_count bs"
    using metabolic_in_result [of _ bs] m by blast
  have conf: "confidence p = (if 3 \<le> metabolic_factor_count bs then ''high'' else ''medium'')"
    if "p \<in> set (identifyBiomarkerPatterns bs)" "p_name p = ''Potential Metabolic Risk Pattern''" for p
    using that metabolic_in_result [of p bs] m [of p] by auto
  show ?thesis
    using ex conf by (auto simp del: One_nat_def)
qed

theorem metabolic_pattern_iff_witness:
  "metabolic_factor_count
     [\<lparr>b_name = ''Glucose'', b_status = ''above_range''\<rparr>,
      \<lparr>b_name = ''Triglycerides'', b_status = ''above_range''\<rparr>,
      \<lparr>b_name = ''HDL'', b_status = ''below_range''\<rparr>] = 3
   \<and> (\<exists>p \<in> set (identifyBiomarkerPatterns
         [\<lparr>b_name = ''Glucose'', b_status = ''above_range''\<rparr>,
          \<lparr>b_name = ''Triglycerides'', b_status = ''above_range''\<rparr>,
          \<lparr>b_name = ''HDL'', b_status = ''below_range''\<rparr>]).
        p_name p = ''Potential Metabolic Risk Pattern'' \<and> confidence p = ''high'')
   \<and> metabolic_factor_count
     [\<lparr>b_name = ''Glucose'', b_status = ''above_range''\<rparr>,
      \<lparr>b_name = ''LDL'', b_status = ''above_range''\<rparr>,
      \<lparr>b_name = ''HDL'', b_status = ''normal''\<rparr>] = 2
   \<and> (\<exists>p \<in> set (identifyBiomarkerPatterns
         [\<lparr>b_name = ''Glucose'', b_status = ''above_range''\<rparr>,
          \<lparr>b_name = ''LDL'', b_status = ''above_range''\<rparr>,
          \<lparr>b_name = ''HDL'', b_status = ''normal''\<rparr>]).
        p_name p = ''Potential Metabolic Risk Pattern'' \<and> confidence p = ''medium'')
   \<and> metabolic_factor_count
     [\<lparr>b_name = ''Glucose'', b_status = ''above_range''\<rparr>,
      \<lparr>b_name = ''HDL'', b_status = ''normal''\<rparr>] = 1
   \<and> \<not> (\<exists>p \<in> set (identifyBiomarkerPatterns
         [\<lparr>b_name = ''Glucose'', b_status = ''above_range''\<rparr>,
          \<lparr>b_name = ''HDL'', b_status = ''normal''\<rparr>]).
        p_name p = ''Potential Metabolic Risk Pattern'')"
proof -
  let ?b3 = "[\<lparr>b_name = ''Glucose'', b_status = ''above_range''\<rparr>,
      \<lparr>b_name = ''Triglycerides'', b_status = ''above_range''\<rparr>,
      \<lparr>b_name = ''HDL'', b_status = ''below_range''\<rparr>]"
  let ?b2 = "[\<lparr>b_name = ''Glucose'', b_status = ''above_range''\<rparr>,
      \<lparr>b_name = ''LDL'', b_status = ''above_range''\<rparr>,
      \<lparr>b_name = ''HDL'', b_status = ''normal''\<rparr>]"
  let ?b1 = "[\<lparr>b_name = ''Glucose'', b_status = ''above_range''\<rparr>,
      \<lparr>b_name = ''HDL'', b_status = ''normal''\<rparr>]"
  have c3: "metabolic_factor_count ?b3 = 3" by code_simp
  have c2: "metabolic_factor_count ?b2 = 2" by code_simp
  have c1: "metabolic_factor_count ?b1 = 1" by code_simp
  have w3: "\<exists>p \<in> set (identifyBiomarkerPatterns ?b3).
        p_name p = ''Potential Metabolic Risk Pattern'' \<and> confidence p = ''high''"
    using metabolic_pattern_iff [of ?b3] unfolding c3 by (simp del: set_simps) blast
  have w2: "\<exists>p \<in> set (identifyBiomarkerPatterns ?b2).
        p_name p = ''Potential Metabolic Risk Pattern'' \<and> confidence p = ''medium''"
    using metabolic_pattern_iff [of ?b2] unfolding c2 by (simp del: set_simps)
  have w1: "\<not> (\<exists>p \<in> set (identifyBiomarkerPatterns ?b1).
        p_name p = ''Potential Metabolic Risk Pattern'')"
    using metabolic_pattern_iff [of ?b1] unfolding c1 by (simp del: set_simps)
  show ?thesis using c3 c2 c1 w3 w2 w1 by blast
qed

text \<open>
  Claim C10. Pattern detection returns at most four patterns: at most one anemia
  pattern, at most one metabolic-risk pattern, at most one thyroid pattern (elevated or
  low TSH, never both) and at most one creatinine pattern; no pattern name occurs twice.
\<close>

theorem at_most_one_pattern_per_kind:
  "length (identifyBiomarkerPatterns bs) \<le> 4
   \<and> length (filter (\<lambda>p. p_name p = ''Potential Anemia Pattern'') (identifyBiomarkerPatterns bs)) \<le> 1
   \<and> length (filter (\<lambda>p. p_name p = ''Potential Metabolic Risk Pattern'')
         (identifyBiomarkerPatterns bs)) \<le> 1
   \<and> length (filter (\<lambda>p. p_name p = ''Elevated TSH Pattern'' \<or> p_name p = ''Low TSH Pattern'')
         (identifyBiomarkerPatterns bs)) \<le> 1
   \<and> length (filter (\<lambda>p. p_name p = ''Elevated Creatinine Pattern'')
         (identifyBiomarkerPatterns bs)) \<le> 1
   \<and> distinct (map p_name (identifyBiomarkerPatterns bs))
   \<and> set (map p_name (identifyBiomarkerPatterns bs))
       \<subseteq> {''Potential Anemia Pattern'', ''Potential Metabolic Risk Pattern'',
          ''Elevated TSH Pattern'', ''Low TSH Pattern'', ''Elevated Creatinine Pattern''}"
  using anemia_shape [of "biomarkerMap bs"] metabolic_shape [of "biomarkerMap bs"]
    thyroid_shape [of "biomarkerMap bs"] kidney_shape [of "biomarkerMap bs"]
  by (auto simp: identifyBiomarkerPatterns_def Let_def)

theorem at_most_one_pattern_per_kind_witness:
  "map p_name (identifyBiomarkerPatterns
      [\<lparr>b_name = ''Hemoglobin'', b_status = ''below_range''\<rparr>,
       \<lparr>b_name = ''Glucose'', b_status = ''above_range''\<rparr>,
       \<lparr>b_name = ''LDL'', b_status = ''above_range''\<rparr>,
       \<lparr>b_name = ''TSH'', b_status = ''below_range''\<rparr>,
       \<lparr>b_name = ''TSH'', b_status = ''above_range''\<rparr>,
       \<lparr>b_name = ''Creatinine'', b_status = ''above_range''\<rparr>])
     = [''Potential Anemia Pattern'', ''Potential Metabolic Risk Pattern'',
        ''Elevated TSH Pattern'', ''Elevated Creatinine Pattern'']
   \<and> length (identifyBiomarkerPatterns
      [\<lparr>b_name = ''Hemoglobin'', b_status = ''below_range''\<rparr>,
       \<lparr>b_name = ''Glucose'', b_status = ''above_range''\<rparr>,
       \<lparr>b_name = ''LDL'', b_status = ''above_range''\<rparr>,
       \<lparr>b_name = ''TSH'', b_status = ''below_range''\<rparr>,
       \<lparr>b_name = ''TSH'', b_status = ''above_range''\<rparr>,
       \<lparr>b_name = ''Creatinine'', b_status = ''above_range''\<rparr>]) \<le> 4"
proof -
  let ?bs = "[\<lparr>b_name = ''Hemoglobin'', b_status = ''below_range''\<rparr>,
       \<lparr>b_name = ''Glucose'', b_status = ''above_range''\<rparr>,
       \<lparr>b_name = ''LDL'', b_status = ''above_range''\<rparr>,
       \<lparr>b_name = ''TSH'', b_status = ''below_range''\<rparr>,
       \<lparr>b_name = ''TSH'', b_status = ''above_range''\<rparr>,
       \<lparr>b_name = ''Creatinine'', b_status = ''above_range''\<rparr>]"
  have n: "map p_name (identifyBiomarkerPatterns ?bs)
     = [''Potential Anemia Pattern'', ''Potential Metabolic Risk Pattern'',
        ''Elevated TSH Pattern'', ''Elevated Creatinine Pattern'']"
    by code_simp
  show ?thesis
    using at_most_one_pattern_per_kind [of ?bs] n by blast
qed

section \<open>Correlation\<close>

lemma dateMap_fold:
  "distinct (map fst m0) \<Longrightarrow>
   distinct (map fst (foldl (\<lambda>m p. AList.update (isoDate (dp_date p)) p m) m0 ps)) \<and>
   fst ` set (foldl (\<lambda>m p. AList.update (isoDate (dp_date p)) p m) m0 ps)
     = fst ` set m0 \<union> (\<lambda>p. isoDate (dp_date p)) ` set ps"
  by (induction ps arbitrary: m0) (auto simp: distinct_update dom_update)

lemma dateMap_distinct: "distinct (map fst (dateMap ps))"
  using dateMap_fold [of "[]" ps] by (simp add: dateMap_def)

lemma dateMap_keys: "fst ` set (dateMap ps) = (\<lambda>p. isoDate (dp_date p)) ` set ps"
  using dateMap_fold [of "[]" ps] by (simp add: dateMap_def)

lemma length_concat_opt:
  "length (concat (map (\<lambda>(d, p1). case f d of None \<Rightarrow> [] | Some p2 \<Rightarrow> [g d p1 p2]) al))
     = length (filter (\<lambda>(d, p1). f d \<noteq> None) al)"
  by (induction al) (auto split: option.split)

lemma length_filter_fst:
  "length (filter (\<lambda>(d, p1). Q d) al) = length (filter Q (map fst al))"
  by (induction al) auto

lemma length_pairBiomarkerData:
  "length (pairBiomarkerData data1 data2) = card (paired_days data1 data2)"
proof -
  let ?m1 = "dateMap data1" and ?m2 = "dateMap data2"
  have in2: "map_of ?m2 d \<noteq> None \<longleftrightarrow> d \<in> (\<lambda>p. isoDate (dp_date p)) ` set data2" for d
    by (simp add: map_of_eq_None_iff dateMap_keys)
  have "length (pairBiomarkerData data1 data2)
      = length (filter (\<lambda>(d, p1). map_of ?m2 d \<noteq> None) ?m1)"
    by (simp add: pairBiomarkerData_def Let_def length_concat_opt)
  also have "\<dots> = length (filter (\<lambda>d. map_of ?m2 d \<noteq> None) (map fst ?m1))"
    by (rule length_filter_fst)
  also have "\<dots> = card (set (filter (\<lambda>d. map_of ?m2 d \<noteq> None) (map fst ?m1)))"
    by (rule distinct_card [symmetric]) (rule distinct_filter, rule dateMap_distinct)
  also have "set (filter (\<lambda>d. map_of ?m2 d \<noteq> None) (map fst ?m1)) = paired_days data1 data2"
    unfolding set_filter set_map in2 dateMap_keys paired_days_def by blast
  finally show ?thesis .
qed

lemma correlate_pair_names:
  "c \<in> set (correlate_pair bd i j) \<Longrightarrow>
     biomarker1 c = fst (bd ! i) \<and> biomarker2 c = fst (bd ! j)"
  by (auto simp: correlate_pair_def Let_def split: if_splits)

lemma correlate_pair_nonempty:
  "correlate_pair bd i j \<noteq> [] \<longleftrightarrow> 3 \<le> card (paired_days (snd (bd ! i)) (snd (bd ! j)))"
  by (simp add: correlate_pair_def Let_def length_pairBiomarkerData)

lemma in_concat_map: "x \<in> set (concat (map f xs)) \<longleftrightarrow> (\<exists>y \<in> set xs. x \<in> set (f y))"
  by auto

lemma in_calculateCorrelations:
  "c \<in> set (calculateCorrelations bd) \<longleftrightarrow>
     (\<exists>i j. i < j \<and> j < length bd \<and> c \<in> set (correlate_pair bd i j))"
proof
  assume "c \<in> set (calculateCorrelations bd)"
  then obtain i j where "i < length bd" "Suc i \<le> j" "j < length bd" "c \<in> set (correlate_pair bd i j)"
    by (auto simp: calculateCorrelations_def)
  then show "\<exists>i j. i < j \<and> j < length bd \<and> c \<in> set (correlate_pair bd i j)"
    by (auto simp: Suc_le_eq)
next
  assume "\<exists>i j. i < j \<and> j < length bd \<and> c \<in> set (correlate_pair bd i j)"
  then obtain i j where ij: "i < j" "j < length bd" "c \<in> set (correlate_pair bd i j)" by blast
  have "\<exists>i' \<in> set [0 ..< length bd]. \<exists>j' \<in> set [i' + 1 ..< length bd].
          c \<in> set (correlate_pair bd i' j')"
    using ij by (intro bexI [of _ i] bexI [of _ j]) simp_all
  then show "c \<in> set (calculateCorrelations bd)"
    by (simp only: calculateCorrelations_def in_concat_map)
qed

text \<open>
  Claim C8. For two series of the argument, the first listed before the second, the
  result of \<open>calculateCorrelations\<close> holds an edge for the pair exactly when at least 3
  calendar days carry a sample of both, that is when the samples paired by exact
  calendar date are at least 3. Otherwise the pair is left out of the returned list;
  the function has no error outcome.
\<close>

theorem correlation_edge_iff:
  assumes "distinct (map fst bd)" and "i < j" and "j < length bd"
  shows "(\<exists>c \<in> set (calculateCorrelations bd).
            biomarker1 c = fst (bd ! i) \<and> biomarker2 c = fst (bd ! j))
         \<longleftrightarrow> 3 \<le> card (paired_days (snd (bd ! i)) (snd (bd ! j)))"
proof
  assume "\<exists>c \<in> set (calculateCorrelations bd).
            biomarker1 c = fst (bd ! i) \<and> biomarker2 c = fst (bd ! j)"
  then obtain c i' j' where c: "i' < j'" "j' < length bd" "c \<in> set (correlate_pair bd i' j')"
    "biomarker1 c = fst (bd ! i)" "biomarker2 c = fst (bd ! j)"
    by (auto simp: in_calculateCorrelations)
  from correlate_pair_names [OF c(3)] c(4,5)
  have n: "fst (bd ! i') = fst (bd ! i)" "fst (bd ! j') = fst (bd ! j)" by simp_all
  have "i' = i"
    using nth_eq_iff_index_eq [of "map fst bd" i' i] assms c(1,2) n by simp
  moreover have "j' = j"
    using nth_eq_iff_index_eq [of "map fst bd" j' j] assms c(1,2) n by simp
  ultimately have "i' = i" "j' = j" .
  with c(3) have "correlate_pair bd i j \<noteq> []" by auto
  then show "3 \<le> card (paired_days (snd (bd ! i)) (snd (bd ! j)))"
    by (simp add: correlate_pair_nonempty)
next
  assume "3 \<le> card (paired_days (snd (bd ! i)) (snd (bd ! j)))"
  then have "correlate_pair bd i j \<noteq> []" by (simp add: correlate_pair_nonempty)
  then obtain c where c: "c \<in> set (correlate_pair bd i j)" by (cases "correlate_pair bd i j") auto
  with assms(2,3) have "c \<in> set (calculateCorrelations bd)"
    by (auto simp: in_calculateCorrelations)
  with correlate_pair_names [OF c] show "\<exists>c \<in> set (calculateCorrelations bd).
            biomarker1 c = fst (bd ! i) \<and> biomarker2 c = fst (bd ! j)" by blast
qed

theorem correlation_edge_iff_witness:
  "distinct (map fst [(''glucose'', [sample 90 0, sample 95 30, sample 100 60]),
                      (''hba1c'', [sample 5 0, sample 6 30, sample 7 60])])
   \<and> 3 \<le> card (paired_days [sample 90 0, sample 95 30, sample 100 60]
                    [sample 5 0, sample 6 30, sample 7 60])
   \<and> (\<exists>c \<in> set (calculateCorrelations
          [(''glucose'', [sample 90 0, sample 95 30, sample 100 60]),
           (''hba1c'', [sample 5 0, sample 6 30, sample 7 60])]).
        biomarker1 c = ''glucose'' \<and> biomarker2 c = ''hba1c'')
   \<and> card (paired_days [sample 90 0, sample 95 30, sample 100 60]
               [sample 5 0, sample 6 30, sample 7 61]) = 2
   \<and> \<not> (\<exists>c \<in> set (calculateCorrelations
          [(''glucose'', [sample 90 0, sample 95 30, sample 100 60]),
           (''hba1c'', [sample 5 0, sample 6 30, sample 7 61])]).
        biomarker1 c = ''glucose'' \<and> biomarker2 c = ''hba1c'')"
proof -
  let ?g = "[sample 90 0, sample 95 30, sample 100 60]"
  let ?h3 = "[sample 5 0, sample 6 30, sample 7 60]"
  let ?h2 = "[sample 5 0, sample 6 30, sample 7 61]"
  have d3: "distinct (map fst [(''glucose'', ?g), (''hba1c'', ?h3)])" by simp
  have d2: "distinct (map fst [(''glucose'', ?g), (''hba1c'', ?h2)])" by simp
  have i: "(0::nat) < 1" by simp
  have j3: "1 < length [(''glucose'', ?g), (''hba1c'', ?h3)]" by simp
  have j2: "1 < length [(''glucose'', ?g), (''hba1c'', ?h2)]" by simp
  have c3: "card (paired_days ?g ?h3) = 3" by code_simp
  have c2: "card (paired_days ?g ?h2) = 2" by code_simp
  have e3: "\<exists>c \<in> set (calculateCorrelations [(''glucose'', ?g), (''hba1c'', ?h3)]).
      biomarker1 c = ''glucose'' \<and> biomarker2 c = ''hba1c''"
    using correlation_edge_iff [OF d3 i j3] c3 by simp
  have e2: "\<not> (\<exists>c \<in> set (calculateCorrelations [(''glucose'', ?g), (''hba1c'', ?h2)]).
      biomarker1 c = ''glucose'' \<and> biomarker2 c = ''hba1c'')"
    using correlation_edge_iff [OF d2 i j2] c2 by simp
  show ?thesis using d3 c3 c2 e3 e2 by simp
qed

lemma pearson_three_equal:
  "calculatePearsonCorrelation [a, a, a] [a, a, a] =
    (let m = js_div (js_add (js_add (js_add (Fin 0) a) a) a) (Fin 3);
         q = js_mul (js_sub a m) (js_sub a m);
         v = js_add (js_add (js_add (Fin 0) q) q) q;
         s = js_sqrt v
     in if js_eq s (Fin 0) then Fin 0 else js_div v (js_mul s s))"
  by (simp add: calculatePearsonCorrelation_def js_sum_def pearson_step_def Let_def)

text \<open>
  The guard of \<open>calculatePearsonCorrelation\<close> fires, and the result is 0, whenever the
  values of \<open>x\<close> are one finite number and the computed mean is that number.
\<close>

lemma pearson_step_zero:
  "x ! i = Fin a \<Longrightarrow>
     \<exists>c' vy'. pearson_step x y (Fin a) my (c, Fin 0, vy) i = (c', Fin 0, vy')"
  by (simp add: pearson_step_def js_sub_def fl_zero Let_def)

lemma pearson_fold_zero_variance:
  assumes "\<forall>i < length x. x ! i = Fin a" and "n \<le> length x"
  shows "\<exists>c vy. foldl (pearson_step x y (Fin a) my) (Fin 0, Fin 0, Fin 0) [0 ..< n] = (c, Fin 0, vy)"
  using assms(2)
proof (induction n)
  case 0
  then show ?case by simp
next
  case (Suc n)
  then obtain c vy where
    ih: "foldl (pearson_step x y (Fin a) my) (Fin 0, Fin 0, Fin 0) [0 ..< n] = (c, Fin 0, vy)"
    by auto
  have "x ! n = Fin a" using Suc.prems assms(1) by simp
  from pearson_step_zero [OF this, of y my c vy]
  obtain c' vy' where "pearson_step x y (Fin a) my (c, Fin 0, vy) n = (c', Fin 0, vy')" by blast
  moreover have "foldl (pearson_step x y (Fin a) my) (Fin 0, Fin 0, Fin 0) [0 ..< Suc n]
      = pearson_step x y (Fin a) my (c, Fin 0, vy) n"
    using ih by simp
  ultimately show ?case by simp
qed

lemma pearson_guard_fires:
  assumes "\<forall>i < length x. x ! i = Fin a"
    and "js_div (js_sum x) (Fin (of_nat (length x))) = Fin a"
  shows "calculatePearsonCorrelation x y = Fin 0"
proof -
  obtain c vy where
    "foldl (pearson_step x y (Fin a) (js_div (js_sum y) (Fin (of_nat (length x)))))
       (Fin 0, Fin 0, Fin 0) [0 ..< length x] = (c, Fin 0, vy)"
    using pearson_fold_zero_variance [OF assms(1), of "length x"] by blast
  then show ?thesis
    by (simp add: calculatePearsonCorrelation_def Let_def assms(2))
qed

lemma pearson_guard_fires_example:
  "calculatePearsonCorrelation [Fin 5, Fin 5, Fin 5] [Fin 1, Fin 2, Fin 4] = Fin 0"
proof -
  have "js_div (js_sum [Fin 5, Fin 5, Fin 5]) (Fin (of_nat (length [Fin 5 :: jsnum, Fin 5, Fin 5]))) = Fin 5"
    by code_simp
  moreover have "\<forall>i < length [Fin 5 :: jsnum, Fin 5, Fin 5]. [Fin 5, Fin 5, Fin 5] ! i = Fin 5"
    by (simp add: nth_Cons' less_Suc_eq)
  ultimately show ?thesis by (rule pearson_guard_fires [rotated])
qed

text \<open>
  Claim C7 asks that the Pearson correlation of two lists is exactly 0 as soon as one of
  them has all its values equal. The guard \<open>stdX === 0 || stdY === 0\<close> tests the computed
  deviations, and the computed mean of equal values need not be that value: for
  \<open>[5.4, 5.4, 5.4]\<close> the sum is 16.200000000000003 and the mean 5.400000000000001, each
  difference is \<open>-2^-50\<close>, the guard does not fire, and the correlation of the list with
  itself comes out as 1.0000000000000002.
\<close>

theorem pearson_constant_series_not_zero:
  "calculatePearsonCorrelation [js_lit (54 / 10), js_lit (54 / 10), js_lit (54 / 10)]
      [js_lit (54 / 10), js_lit (54 / 10), js_lit (54 / 10)]
     = Fin (4503599627370497 / 4503599627370496)"
proof -
  have s_lit: "js_lit (54 / 10) = Fin (3039929748475085 / 562949953421312)"
    by code_simp
  have s_m: "js_div (js_add (js_add (js_add (Fin 0) (Fin (3039929748475085 / 562949953421312)))
        (Fin (3039929748475085 / 562949953421312))) (Fin (3039929748475085 / 562949953421312))) (Fin 3)
      = Fin (6079859496950171 / 1125899906842624)"
    by code_simp
  have s_q: "js_mul (js_sub (Fin (3039929748475085 / 562949953421312)) (Fin (6079859496950171 / 1125899906842624)))
        (js_sub (Fin (3039929748475085 / 562949953421312)) (Fin (6079859496950171 / 1125899906842624)))
      = Fin (1 / 1267650600228229401496703205376)"
    by code_simp
  have s_v: "js_add (js_add (js_add (Fin 0) (Fin (1 / 1267650600228229401496703205376)))
        (Fin (1 / 1267650600228229401496703205376))) (Fin (1 / 1267650600228229401496703205376))
      = Fin (3 / 1267650600228229401496703205376)"
    by code_simp
  have s_s: "js_sqrt (Fin (3 / 1267650600228229401496703205376))
      = Fin (3900231685776981 / 2535301200456458802993406410752)"
    by code_simp
  have s_e: "js_eq (Fin (3900231685776981 / 2535301200456458802993406410752)) (Fin 0) = False"
    by code_simp
  have s_r: "js_div (Fin (3 / 1267650600228229401496703205376))
        (js_mul (Fin (3900231685776981 / 2535301200456458802993406410752))
                (Fin (3900231685776981 / 2535301200456458802993406410752)))
      = Fin (4503599627370497 / 4503599627370496)"
    by code_simp
  show ?thesis
    by (simp only: s_lit pearson_three_equal Let_def s_m s_q s_v s_s s_e s_r if_False)
qed

section \<open>Trend\<close>

lemma fl_5: "fl 5 = Fin 5" by code_simp
lemma fl_10: "fl 10 = Fin 10" by code_simp

lemma nan_or_nonneg_square: "nan_or_nonneg (js_square v)"
  by (cases v) (auto simp: js_square_def nan_or_nonneg_def nonneg_fl nonneg_def [of PInf])

lemma nan_or_nonneg_add: "nan_or_nonneg a \<Longrightarrow> nan_or_nonneg b \<Longrightarrow> nan_or_nonneg (js_add a b)"
  by (cases a; cases b) (auto simp: nan_or_nonneg_def nonneg_fl nonneg_def [of PInf] nonneg_def [of "Fin _"]
      nonneg_def [of NInf])

lemma nan_or_nonneg_div_zero:
  "nan_or_nonneg a \<Longrightarrow> js_div a (Fin 0) = NaN \<or> js_div a (Fin 0) = PInf"
  by (cases a) (auto simp: nan_or_nonneg_def nonneg_def overflow_def)

text \<open>
  Claim C4 asks for \<open>rSquared = 1\<close> and \<open>slope = 0\<close>, never NaN, on a constant series. For
  the two samples 5 and 5 taken a day apart the total sum of squares is 0 and the code
  divides by it: whatever slope and intercept the regression returns, \<open>rSquared\<close> is NaN
  (residuals all zero) or minus infinity, never 1.
\<close>

theorem constant_series_rSquared:
  "\<exists>r. calculateTrend lr name
          [\<lparr>dp_value = Fin 5, dp_date = 0, dp_unit = u, dp_referenceMin = lo, dp_referenceMax = hi\<rparr>,
           \<lparr>dp_value = Fin 5, dp_date = 86400000, dp_unit = u, dp_referenceMin = lo, dp_referenceMax = hi\<rparr>]
        = Inr r
      \<and> (rSquared (trend r) = NaN \<or> rSquared (trend r) = NInf)"
proof -
  let ?p0 = "\<lparr>dp_value = Fin 5, dp_date = 0, dp_unit = u, dp_referenceMin = lo, dp_referenceMax = hi\<rparr>"
  let ?p1 = "\<lparr>dp_value = Fin 5, dp_date = 86400000, dp_unit = u, dp_referenceMin = lo, dp_referenceMax = hi\<rparr>"
  have sorted: "sort_key dp_date [?p0, ?p1] = [?p0, ?p1]" by simp
  have mean: "js_div (js_sum [Fin 5, Fin 5]) (Fin (of_nat (length [Fin 5 :: jsnum, Fin 5]))) = Fin 5"
    by (simp add: js_sum_def fl_5 fl_10)
  have tot: "foldl (\<lambda>sum val. js_add sum (js_square (js_sub val (Fin 5)))) (Fin 0) [Fin 5, Fin 5] = Fin 0"
    by (simp add: js_sub_def js_square_def fl_zero)
  have res: "nan_or_nonneg (foldl (\<lambda>sum val. js_add sum (js_square val)) (Fin 0) [a, b])" for a b
  proof -
    have z: "nan_or_nonneg (Fin 0)" by (simp add: nan_or_nonneg_def nonneg_def)
    show ?thesis
      unfolding foldl.simps
      by (intro nan_or_nonneg_add nan_or_nonneg_square z)
  qed
  have "toFixed2 (js_sub (Fin 1) (js_div x (Fin 0))) = NaN \<or>
        toFixed2 (js_sub (Fin 1) (js_div x (Fin 0))) = NInf" if "nan_or_nonneg x" for x
    using nan_or_nonneg_div_zero [OF that] by (auto simp: js_sub_def)
  note fin = this [OF res]
  show ?thesis
    unfolding calculateTrend_def sorted Let_def
    using fin by (simp add: mean [simplified] tot [simplified] del: js_div.simps js_add.simps toFixed2.simps)
qed

end
